theory Spec2Isabelle
  imports Complex_Main
begin

section \<open>Common Python notions\<close>

text \<open>
  Python floats are modelled as exact reals, Python ints as \<open>int\<close> (or \<open>nat\<close> for counters
  that only grow from 0). A naive \<open>datetime\<close> is the number of microseconds since
  0001-01-01T00:00:00 (the calendar of \<open>datetime\<close> has no leap seconds, so hours are
  aligned multiples of 3600000000 microseconds).
\<close>

type_synonym datetime = int

datatype error = ValueError | StatisticsError | OverflowError | IndexError | LibraryError

text \<open>A Python \<open>dict\<close> keeps insertion order: an association list with distinct keys.\<close>

type_synonym ('k, 'v) dict = "('k \<times> 'v) list"

fun dict_get :: "('k, 'v) dict \<Rightarrow> 'k \<Rightarrow> 'v option" where
  "dict_get [] k = None"
| "dict_get ((k', v) # d) k = (if k' = k then Some v else dict_get d k)"

text \<open>\<open>d[k] = v\<close>: an existing key keeps its position, a new key goes last.\<close>

fun dict_set :: "('k, 'v) dict \<Rightarrow> 'k \<Rightarrow> 'v \<Rightarrow> ('k, 'v) dict" where
  "dict_set [] k v = [(k, v)]"
| "dict_set ((k', v') # d) k v = (if k' = k then (k, v) # d else (k', v') # dict_set d k v)"

text \<open>\<open>del d[k]\<close> (only ever called on a key that is present).\<close>

fun dict_del :: "('k, 'v) dict \<Rightarrow> 'k \<Rightarrow> ('k, 'v) dict" where
  "dict_del [] k = []"
| "dict_del ((k', v') # d) k = (if k' = k then d else (k', v') # dict_del d k)"

definition keys :: "('k, 'v) dict \<Rightarrow> 'k list" where
  "keys d = map fst d"

text \<open>\<open>str(n)\<close> for a Python int.\<close>

definition digit_char :: "nat \<Rightarrow> char" where
  "digit_char n = ''0123456789'' ! n"

function str_nat :: "nat \<Rightarrow> string" where
  "str_nat n = (if n < 10 then [digit_char n] else str_nat (n div 10) @ [digit_char (n mod 10)])"
  by pat_completeness auto
termination
  by (relation "measure id") auto

declare str_nat.simps [simp del]

definition str_int :: "int \<Rightarrow> string" where
  "str_int i = (if i < 0 then CHR ''-'' # str_nat (nat (- i)) else str_nat (nat i))"

section \<open>ModelCache (app/services/model\_cache.py)\<close>

text \<open>
  One cache entry: the dict with keys model, created\_at, expires\_at, hits, last\_accessed.
\<close>

record 'm cached_item =
  model :: 'm
  created_at :: datetime
  expires_at :: datetime
  hits :: nat
  last_accessed :: datetime

record 'm ModelCache =
  ttl_minutes :: int
  max_cache_size :: int
  cache :: "(string, 'm cached_item) dict"

definition ModelCache_init :: "int \<Rightarrow> int \<Rightarrow> 'm ModelCache" where
  "ModelCache_init ttl n = \<lparr>ttl_minutes = ttl, max_cache_size = n, cache = []\<rparr>"

definition generate_cache_key :: "string \<Rightarrow> int \<Rightarrow> int \<Rightarrow> string" where
  "generate_cache_key anomaly_type feature_count data_size =
     anomaly_type @ ''_'' @ str_int feature_count @ ''_'' @ str_int data_size"

text \<open>
  \<open>get\<close>: the two readings of \<open>datetime.utcnow()\<close> (expiry test, new last\_accessed) are
  the arguments \<open>now\<close> and \<open>now'\<close>. The result is the returned model (\<open>None\<close> for a miss)
  and the cache afterwards.
\<close>

definition ModelCache_get ::
  "'m ModelCache \<Rightarrow> string \<Rightarrow> int \<Rightarrow> int \<Rightarrow> datetime \<Rightarrow> datetime \<Rightarrow> 'm option \<times> 'm ModelCache" where
  "ModelCache_get c anomaly_type feature_count data_size now now' =
     (let cache_key = generate_cache_key anomaly_type feature_count data_size in
      case dict_get (cache c) cache_key of
        None \<Rightarrow> (None, c)
      | Some cached_item \<Rightarrow>
          if now > expires_at cached_item
          then (None, c\<lparr>cache := dict_del (cache c) cache_key\<rparr>)
          else (Some (model cached_item),
                c\<lparr>cache := dict_set (cache c) cache_key
                   (cached_item\<lparr>hits := hits cached_item + 1, last_accessed := now'\<rparr>)\<rparr>))"

text \<open>The eviction order: Python's comparison of the tuples (hits, last\_accessed).\<close>

definition usage :: "'m cached_item \<Rightarrow> nat \<times> datetime" where
  "usage item = (hits item, last_accessed item)"

definition tuple_less :: "nat \<times> datetime \<Rightarrow> nat \<times> datetime \<Rightarrow> bool" where
  "tuple_less a b = (fst a < fst b \<or> (fst a = fst b \<and> snd a < snd b))"

text \<open>
  \<open>min(self._cache.keys(), key=...)\<close>: the first key, in dict order, whose tuple no other
  key's tuple is less than. The key function looks the key's own entry up, so the
  scan runs over the entries.
\<close>

fun min_by_usage :: "string \<times> 'm cached_item \<Rightarrow> (string, 'm cached_item) dict \<Rightarrow> string \<times> 'm cached_item" where
  "min_by_usage best [] = best"
| "min_by_usage best (e # es) =
     min_by_usage (if tuple_less (usage (snd e)) (usage (snd best)) then e else best) es"

definition evict_least_used :: "'m ModelCache \<Rightarrow> 'm ModelCache" where
  "evict_least_used c =
     (case cache c of
        [] \<Rightarrow> c
      | e # es \<Rightarrow> c\<lparr>cache := dict_del (cache c) (fst (min_by_usage e es))\<rparr>)"

text \<open>
  \<open>set\<close>: the three readings of \<open>datetime.utcnow()\<close> are \<open>t_created\<close>, \<open>t_expires\<close> and
  \<open>t_accessed\<close>; \<open>timedelta(minutes=ttl)\<close> is \<open>ttl * 60000000\<close> microseconds (the expiry
  time is taken to stay within the years 1..9999 of \<open>datetime\<close>).
\<close>

definition ModelCache_set ::
  "'m ModelCache \<Rightarrow> string \<Rightarrow> int \<Rightarrow> int \<Rightarrow> 'm \<Rightarrow> datetime \<Rightarrow> datetime \<Rightarrow> datetime \<Rightarrow> 'm ModelCache" where
  "ModelCache_set c anomaly_type feature_count data_size m t_created t_expires t_accessed =
     (let cache_key = generate_cache_key anomaly_type feature_count data_size;
          c' = (if int (length (cache c)) \<ge> max_cache_size c then evict_least_used c else c)
      in c'\<lparr>cache := dict_set (cache c') cache_key
            \<lparr>model = m, created_at = t_created,
             expires_at = t_expires + ttl_minutes c * 60000000,
             hits = 0, last_accessed = t_accessed\<rparr>\<rparr>)"

text \<open>One call of \<open>set\<close> with its arguments and clock readings bundled; a run of calls.\<close>

record 'm set_call =
  call_type :: string
  call_features :: int
  call_size :: int
  call_model :: 'm
  call_t_created :: datetime
  call_t_expires :: datetime
  call_t_accessed :: datetime

definition call_key :: "'m set_call \<Rightarrow> string" where
  "call_key a = generate_cache_key (call_type a) (call_features a) (call_size a)"

definition apply_set :: "'m ModelCache \<Rightarrow> 'm set_call \<Rightarrow> 'm ModelCache" where
  "apply_set c a =
     ModelCache_set c (call_type a) (call_features a) (call_size a) (call_model a)
       (call_t_created a) (call_t_expires a) (call_t_accessed a)"

definition set_all :: "'m ModelCache \<Rightarrow> 'm set_call list \<Rightarrow> 'm ModelCache" where
  "set_all c calls = foldl apply_set c calls"

subsection \<open>A cache scenario\<close>

text \<open>
  The scenario of test\_model\_cache\_eviction\_lru (tests/test\_rate\_limit\_and\_caching.py):
  four distinct keys; \<open>full_cache\<close> is a cache of capacity 3 after the first three.
\<close>

definition test_calls :: "unit set_call list" where
  "test_calls =
    [\<lparr>call_type = ''network'', call_features = 5, call_size = 100, call_model = (),
       call_t_created = 1000, call_t_expires = 1000, call_t_accessed = 1000\<rparr>,
     \<lparr>call_type = ''site'', call_features = 6, call_size = 100, call_model = (),
       call_t_created = 2000, call_t_expires = 2000, call_t_accessed = 2000\<rparr>,
     \<lparr>call_type = ''link'', call_features = 4, call_size = 100, call_model = (),
       call_t_created = 3000, call_t_expires = 3000, call_t_accessed = 3000\<rparr>,
     \<lparr>call_type = ''network'', call_features = 5, call_size = 200, call_model = (),
       call_t_created = 4000, call_t_expires = 4000, call_t_accessed = 4000\<rparr>]"

definition full_cache :: "unit ModelCache" where
  "full_cache = set_all (ModelCache_init 60 3) (take 3 test_calls)"

section \<open>Correlation engine (app/services/correlation\_engine.py): data\<close>

text \<open>
  A row of the table site\_grades (app/models/bcom\_models.py), with the columns the
  engine reads. The nullable Float columns are options; grade and timestamp are not
  nullable.
\<close>

record SiteGrade =
  grade_link_id :: int
  timestamp :: datetime
  ib_degradation :: "real option"
  ob_degradation :: "real option"
  ib_instability :: "real option"
  ob_instability :: "real option"
  congestion :: "real option"
  grade :: real

text \<open>\<open>x or 0\<close> on a nullable float: \<open>None\<close> and \<open>0.0\<close> both give 0.\<close>

definition or0 :: "real option \<Rightarrow> real" where
  "or0 x = (case x of None \<Rightarrow> 0 | Some v \<Rightarrow> v)"

text \<open>
  An f-string is kept as its parts: the literal text and the formatted values
  (\<open>{n}\<close> of an int, \<open>{t.isoformat()}\<close> of a datetime, \<open>{x:.1f}\<close> of a float). A plain
  string is a single literal part. Characters outside ASCII are written as their UTF-8
  bytes.
\<close>

datatype fpart = Lit string | FInt int | FIso datetime | FFixed1 real

type_synonym pystr = "fpart list"

datatype metric = MFloat real | MInt int | MStr pystr

record DegradationPattern =
  pattern_id :: pystr
  pattern_type :: string
  severity :: real
  confidence :: real
  affected_items :: "int list"
  root_cause :: string
  supporting_metrics :: "(string, metric) dict"
  pattern_timestamp :: datetime
  hours_duration :: int
  devices_affected_count :: int
  links_affected_count :: int

record CorrelationAnalysis =
  analysis_id :: pystr
  scope :: string
  scope_id :: int
  analysis_timestamp :: datetime
  hours_analyzed :: int
  patterns_found :: "DegradationPattern list"
  correlation_score :: real
  recommendations :: "pystr list"

definition CRITICAL_GRADE_THRESHOLD :: real where "CRITICAL_GRADE_THRESHOLD = 6.0"
definition MIN_DEVICES_FOR_PATTERN :: nat where "MIN_DEVICES_FOR_PATTERN = 2"
definition IB_DEGRADATION_THRESHOLD :: real where "IB_DEGRADATION_THRESHOLD = 0.2"
definition OB_DEGRADATION_THRESHOLD :: real where "OB_DEGRADATION_THRESHOLD = 0.2"
definition INSTABILITY_THRESHOLD :: real where "INSTABILITY_THRESHOLD = 0.3"

subsection \<open>The statistics module\<close>

text \<open>\<open>mean\<close> raises StatisticsError on no data, \<open>stdev\<close> on fewer than two points.\<close>

definition average :: "real list \<Rightarrow> real" where
  "average xs = sum_list xs / real (length xs)"

definition mean :: "real list \<Rightarrow> error + real" where
  "mean xs = (if xs = [] then Inl StatisticsError else Inr (average xs))"

definition stdev :: "real list \<Rightarrow> error + real" where
  "stdev xs =
     (if length xs < 2 then Inl StatisticsError
      else Inr (sqrt (sum_list (map (\<lambda>x. (x - average xs)\<^sup>2) xs) / real (length xs - 1))))"

text \<open>\<open>min(xs)\<close> of a list raises ValueError when the list is empty.\<close>

definition py_min :: "real list \<Rightarrow> error + real" where
  "py_min xs = (case xs of [] \<Rightarrow> Inl ValueError | x # rest \<Rightarrow> Inr (fold min rest x))"

subsection \<open>Pattern detection\<close>

text \<open>
  \<open>_detect_bidirectional_degradation\<close>: one pattern per grade record whose inbound and
  outbound degradation both reach their thresholds.
\<close>

definition bidirectional_pattern :: "int \<Rightarrow> SiteGrade \<Rightarrow> DegradationPattern" where
  "bidirectional_pattern link_id g =
     (let ib_deg = or0 (ib_degradation g); ob_deg = or0 (ob_degradation g) in
      \<lparr>pattern_id = [Lit ''BIDIR_'', FInt link_id, Lit ''_'', FIso (timestamp g)],
       pattern_type = ''antenna_misalignment'',
       severity = max ib_deg ob_deg,
       confidence = 0.90,
       affected_items = [link_id],
       root_cause = ''Antenna misalignment: simultaneous IB & OB degradation'',
       supporting_metrics =
         [(''ib_degradation'', MFloat ib_deg), (''ob_degradation'', MFloat ob_deg),
          (''grade'', MFloat (grade g)), (''timestamp'', MStr [FIso (timestamp g)])],
       pattern_timestamp = timestamp g,
       hours_duration = 1,
       devices_affected_count = 1,
       links_affected_count = 1\<rparr>)"

definition is_bidirectional :: "SiteGrade \<Rightarrow> bool" where
  "is_bidirectional g =
     (or0 (ib_degradation g) \<ge> IB_DEGRADATION_THRESHOLD \<and>
      or0 (ob_degradation g) \<ge> OB_DEGRADATION_THRESHOLD)"

fun detect_bidirectional_degradation :: "SiteGrade list \<Rightarrow> int \<Rightarrow> DegradationPattern list" where
  "detect_bidirectional_degradation [] link_id = []"
| "detect_bidirectional_degradation (g # gs) link_id =
     (if is_bidirectional g
      then bidirectional_pattern link_id g # detect_bidirectional_degradation gs link_id
      else detect_bidirectional_degradation gs link_id)"

text \<open>
  \<open>_detect_temporal_correlation\<close>. \<open>timestamp.replace(minute=0, second=0, microsecond=0)\<close>
  is the start of the timestamp's hour. The buckets are a dict from hour to the list of
  (link id, grade record) pairs, filled in the order of the links and their records.
\<close>

definition hour_key :: "datetime \<Rightarrow> datetime" where
  "hour_key t = t - t mod 3600000000"

fun bucket_append :: "(datetime, (int \<times> SiteGrade) list) dict \<Rightarrow> datetime \<Rightarrow> int \<times> SiteGrade
    \<Rightarrow> (datetime, (int \<times> SiteGrade) list) dict" where
  "bucket_append [] h e = [(h, [e])]"
| "bucket_append ((h', es) # d) h e =
     (if h' = h then (h', es @ [e]) # d else (h', es) # bucket_append d h e)"

definition hourly_buckets :: "(int, SiteGrade list) dict \<Rightarrow> (datetime, (int \<times> SiteGrade) list) dict" where
  "hourly_buckets link_grades =
     foldl (\<lambda>buckets (link_id, grades).
              foldl (\<lambda>b g. bucket_append b (hour_key (timestamp g)) (link_id, g)) buckets grades)
       [] link_grades"

text \<open>
  \<open>list(set(...))\<close> keeps one copy of each link id, in an order Python does not fix;
  only the elements and the length of the model's list are meaningful.
\<close>

definition temporal_pattern :: "int \<Rightarrow> datetime \<Rightarrow> (int \<times> SiteGrade) list \<Rightarrow> error + DegradationPattern" where
  "temporal_pattern network_id hour entries =
     (let affected_links = remdups (map fst entries);
          grades_list = map (grade \<circ> snd) entries in
      case mean grades_list of
        Inl e \<Rightarrow> Inl e
      | Inr avg \<Rightarrow>
          (case py_min grades_list of
             Inl e \<Rightarrow> Inl e
           | Inr lowest \<Rightarrow>
               Inr \<lparr>pattern_id = [FInt network_id, Lit ''_'', FIso hour],
                    pattern_type = ''network_equipment_failure'',
                    severity = 1.0 - avg / 10.0,
                    confidence = min 0.95 (real (length affected_links) / 10.0 * 2),
                    affected_items = affected_links,
                    root_cause = ''Possible equipment/hardware failure affecting multiple sites'',
                    supporting_metrics =
                      [(''avg_grade'', MFloat avg), (''min_grade'', MFloat lowest),
                       (''affected_links'', MInt (int (length affected_links))),
                       (''simultaneous_degradation_count'', MInt (int (length entries)))],
                    pattern_timestamp = hour,
                    hours_duration = 1,
                    devices_affected_count = int (length affected_links),
                    links_affected_count = int (length affected_links)\<rparr>))"

text \<open>
  The loop over the buckets, inside \<open>try\<close>: an exception ends the loop and the patterns
  gathered so far are returned.
\<close>

fun temporal_loop :: "int \<Rightarrow> (datetime, (int \<times> SiteGrade) list) dict \<Rightarrow> DegradationPattern list" where
  "temporal_loop network_id [] = []"
| "temporal_loop network_id ((hour, entries) # rest) =
     (if length entries \<ge> MIN_DEVICES_FOR_PATTERN
      then (case temporal_pattern network_id hour entries of
              Inl e \<Rightarrow> []
            | Inr p \<Rightarrow> p # temporal_loop network_id rest)
      else temporal_loop network_id rest)"

definition detect_temporal_correlation ::
  "(int, SiteGrade list) dict \<Rightarrow> int \<Rightarrow> string \<Rightarrow> DegradationPattern list" where
  "detect_temporal_correlation link_grades network_id ptype =
     (if link_grades = [] \<or> length link_grades < MIN_DEVICES_FOR_PATTERN then []
      else temporal_loop network_id (hourly_buckets link_grades))"

text \<open>
  \<open>_detect_antenna_alignment_patterns\<close>: \<open>mean(xs) if xs else 0\<close> never raises; \<open>now\<close> is
  the reading of \<open>datetime.utcnow()\<close> used when a link has no grade record.
\<close>

definition mean_or0 :: "real list \<Rightarrow> real" where
  "mean_or0 xs = (if xs \<noteq> [] then average xs else 0)"

definition antenna_pattern :: "int \<Rightarrow> int \<Rightarrow> SiteGrade list \<Rightarrow> datetime \<Rightarrow> DegradationPattern" where
  "antenna_pattern site_id link_id grades now =
     (let avg_ib_instability = mean_or0 (map (\<lambda>g. or0 (ib_instability g)) grades);
          avg_ob_instability = mean_or0 (map (\<lambda>g. or0 (ob_instability g)) grades) in
      \<lparr>pattern_id = [Lit ''ANTENNA_'', FInt site_id, Lit ''_'', FInt link_id],
       pattern_type = ''antenna_alignment'',
       severity = max avg_ib_instability avg_ob_instability,
       confidence = 0.85,
       affected_items = [link_id],
       root_cause = ''Antenna alignment issue causing bidirectional instability'',
       supporting_metrics =
         [(''avg_ib_instability'', MFloat avg_ib_instability),
          (''avg_ob_instability'', MFloat avg_ob_instability),
          (''grade_records_analyzed'', MInt (int (length grades)))],
       pattern_timestamp = (case grades of [] \<Rightarrow> now | g # _ \<Rightarrow> timestamp g),
       hours_duration = int (length grades),
       devices_affected_count = 1,
       links_affected_count = 1\<rparr>)"

definition is_misaligned :: "SiteGrade list \<Rightarrow> bool" where
  "is_misaligned grades =
     (mean_or0 (map (\<lambda>g. or0 (ib_instability g)) grades) > INSTABILITY_THRESHOLD \<and>
      mean_or0 (map (\<lambda>g. or0 (ob_instability g)) grades) > INSTABILITY_THRESHOLD)"

fun detect_antenna_alignment_patterns ::
  "(int, SiteGrade list) dict \<Rightarrow> int \<Rightarrow> datetime \<Rightarrow> DegradationPattern list" where
  "detect_antenna_alignment_patterns [] site_id now = []"
| "detect_antenna_alignment_patterns ((link_id, grades) # rest) site_id now =
     (if is_misaligned grades
      then antenna_pattern site_id link_id grades now
             # detect_antenna_alignment_patterns rest site_id now
      else detect_antenna_alignment_patterns rest site_id now)"

text \<open>\<open>_detect_satellite_patterns\<close>: at most one pattern, over all records of all links.\<close>

definition detect_satellite_patterns ::
  "(int, SiteGrade list) dict \<Rightarrow> string \<Rightarrow> datetime \<Rightarrow> DegradationPattern list" where
  "detect_satellite_patterns degraded_links satellite_name now =
     (if length degraded_links \<ge> MIN_DEVICES_FOR_PATTERN then
        (let all_grades = concat (map snd degraded_links);
             avg_grade = mean_or0 (map grade all_grades);
             avg_congestion = mean_or0 (map (\<lambda>g. or0 (congestion g)) all_grades) in
         [\<lparr>pattern_id = [Lit ''SAT_'', Lit satellite_name],
           pattern_type = ''satellite_interference'',
           severity = max (1.0 - avg_grade / 10.0) avg_congestion,
           confidence = 0.88,
           affected_items = keys degraded_links,
           root_cause = ''Possible satellite interference or underperformance'',
           supporting_metrics =
             [(''affected_links'', MInt (int (length degraded_links))),
              (''avg_grade'', MFloat avg_grade),
              (''avg_congestion'', MFloat avg_congestion),
              (''total_measurements'', MInt (int (length all_grades)))],
           pattern_timestamp = (case all_grades of [] \<Rightarrow> now | g # _ \<Rightarrow> timestamp g),
           hours_duration = int (length all_grades),
           devices_affected_count = int (length degraded_links),
           links_affected_count = int (length degraded_links)\<rparr>])
      else [])"

subsection \<open>Scores\<close>

text \<open>
  \<open>_calculate_correlation_score\<close>: \<open>stdev\<close> raising StatisticsError is caught and gives
  0.5; \<open>hours_lookback\<close> is not used.
\<close>

definition calculate_correlation_score :: "(int, SiteGrade list) dict \<Rightarrow> int \<Rightarrow> real" where
  "calculate_correlation_score degraded_items hours_lookback =
     (if degraded_items = [] then 0.0
      else
        let item_count = length degraded_items;
            item_score = min (real item_count / 10.0) 1.0;
            all_grades = concat (map (\<lambda>(k, grades). map grade grades) degraded_items);
            consistency_score =
              (if all_grades \<noteq> [] then
                 (case stdev all_grades of
                    Inr grade_stdev \<Rightarrow> max 0 (min 1.0 (1.0 - grade_stdev / 10.0))
                  | Inl e \<Rightarrow> 0.5)
               else 0.5);
            correlation_score = item_score * 0.4 + consistency_score * 0.6
        in min 1.0 correlation_score)"

text \<open>
  The consistency term as the specification words it: the clamp of
  1 - stdev(all grades)/10 to [0, 1], and 0.5 when fewer than two grades exist.
\<close>

definition spec_consistency :: "real list \<Rightarrow> real" where
  "spec_consistency all_grades =
     (if length all_grades < 2 then 0.5
      else max 0 (min 1
        (1 - sqrt (sum_list (map (\<lambda>x. (x - average all_grades)\<^sup>2) all_grades)
                     / real (length all_grades - 1)) / 10)))"

definition calculate_bidirectional_score :: "SiteGrade list \<Rightarrow> real" where
  "calculate_bidirectional_score grades =
     (let bidirectional_count = length (filter is_bidirectional grades);
          total_count = length grades in
      if total_count = 0 then 0.0 else real bidirectional_count / real total_count)"

subsection \<open>Recommendation texts\<close>

definition red_circle :: string where
  "red_circle = [CHR 0xF0, CHR 0x9F, CHR 0x94, CHR 0xB4]"

definition orange_circle :: string where
  "orange_circle = [CHR 0xF0, CHR 0x9F, CHR 0x9F, CHR 0xA0]"

definition bullet :: string where
  "bullet = [CHR 0xE2, CHR 0x80, CHR 0xA2]"




definition generate_bidirectional_recommendations ::
  "DegradationPattern list \<Rightarrow> real \<Rightarrow> pystr list" where
  "generate_bidirectional_recommendations patterns score =
     (if score > 0.6 then
        [[Lit (red_circle @ '' CRITICAL: Bidirectional degradation detected (IB & OB). '' @
               ''Strong indicator of antenna misalignment.'')],
         [Lit (bullet @ '' IMMEDIATE ACTION: Schedule antenna re-alignment'')]]
      else
        [[Lit (orange_circle @ '' WARNING: Simultaneous IB & OB degradation patterns detected.'')]])
     @ [[Lit (bullet @ '' Check antenna orientation using spectrum analyzer'')],
        [Lit (bullet @ '' Verify antenna cable connections and impedance matching'')],
        [Lit (bullet @ '' Review weather conditions during degradation period'')],
        [Lit (bullet @ '' Inspect for physical damage to antenna or mast'')]]"

subsection \<open>The database session\<close>

text \<open>
  The tables the engine queries (app/models/bcom\_models.py), with the columns it reads.
  A query is a filter over the table, in table order.
\<close>

record Link =
  link_id :: int
  site_id :: int
  network_id :: int
  link_type :: "string option"

record Site =
  site_site_id :: int
  site_type :: "string option"

record Session =
  links_table :: "Link list"
  sites_table :: "Site list"
  site_grades_table :: "SiteGrade list"

text \<open>
  \<open>datetime.utcnow() - timedelta(hours=h)\<close>: \<open>timedelta\<close> raises OverflowError when its
  days exceed 999999999 in magnitude, the subtraction when the result leaves the years
  1..9999 (3652059 days).
\<close>

definition MAX_DATETIME :: datetime where
  "MAX_DATETIME = 3652059 * 86400000000 - 1"

definition cutoff_time :: "datetime \<Rightarrow> int \<Rightarrow> error + datetime" where
  "cutoff_time now hours_lookback =
     (if \<bar>hours_lookback div 24\<bar> > 999999999 then Inl OverflowError
      else let t = now - hours_lookback * 3600000000 in
           if t < 0 \<or> t > MAX_DATETIME then Inl OverflowError else Inr t)"


text \<open>
  The grade records of one link since the cutoff, optionally only those below the
  warning grade; and the dict built from them, one entry per link that has any.
\<close>

definition grades_since :: "Session \<Rightarrow> int \<Rightarrow> datetime \<Rightarrow> SiteGrade list" where
  "grades_since db lid cutoff =
     filter (\<lambda>g. grade_link_id g = lid \<and> timestamp g \<ge> cutoff) (site_grades_table db)"





subsection \<open>The four analyses\<close>

text \<open>
  Each analysis returns \<open>Optional[CorrelationAnalysis]\<close>; its body is a \<open>try\<close> whose
  \<open>except Exception\<close> logs and returns \<open>None\<close>. \<open>uid\<close> is \<open>uuid.uuid4().hex[:8]\<close>; \<open>now\<close>
  is the reading of \<open>datetime.utcnow()\<close> for the cutoff, \<open>now'\<close> the one stored as the
  analysis timestamp, \<open>now''\<close> the one a detector falls back to.
\<close>

definition no_patterns_analysis ::
  "pystr \<Rightarrow> string \<Rightarrow> int \<Rightarrow> datetime \<Rightarrow> int \<Rightarrow> string \<Rightarrow> CorrelationAnalysis" where
  "no_patterns_analysis aid sc sid now' hours_lookback message =
     \<lparr>analysis_id = aid, scope = sc, scope_id = sid, analysis_timestamp = now',
      hours_analyzed = hours_lookback, patterns_found = [], correlation_score = 0.0,
      recommendations = [[Lit message]]\<rparr>"






definition analyze_link_bidirectional_degradation ::
  "Session \<Rightarrow> int \<Rightarrow> int \<Rightarrow> string \<Rightarrow> datetime \<Rightarrow> datetime \<Rightarrow> CorrelationAnalysis option" where
  "analyze_link_bidirectional_degradation db lid hours_lookback uid now now' =
     (let aid = [Lit ''LINK_'', FInt lid, Lit ''_'', Lit uid] in
      case cutoff_time now hours_lookback of
        Inl e \<Rightarrow> None
      | Inr cutoff \<Rightarrow>
          (let grades = sort_key timestamp (grades_since db lid cutoff) in
           if grades = [] then
             Some (no_patterns_analysis aid ''link'' lid now' hours_lookback
                     ''Insufficient data for analysis'')
           else
             let patterns = detect_bidirectional_degradation grades lid in
             if patterns = [] then
               Some (no_patterns_analysis aid ''link'' lid now' hours_lookback
                       ''No bidirectional degradation detected'')
             else
               let score = calculate_bidirectional_score grades;
                   recs = generate_bidirectional_recommendations patterns score
               in Some \<lparr>analysis_id = aid, scope = ''link'', scope_id = lid,
                        analysis_timestamp = now', hours_analyzed = hours_lookback,
                        patterns_found = patterns, correlation_score = score,
                        recommendations = recs\<rparr>))"

subsection \<open>Scenarios and auxiliary notions for the engine\<close>

text \<open>
  The specification's scenario: one grade record on link 42 with inbound degradation 0.25
  and outbound degradation 0.3.
\<close>

definition scenario_grade :: SiteGrade where
  "scenario_grade =
     \<lparr>grade_link_id = 42, timestamp = 63900000000000000,
      ib_degradation = Some 0.25, ob_degradation = Some 0.3,
      ib_instability = None, ob_instability = None, congestion = None, grade = 6.5\<rparr>"

definition scenario_db :: Session where
  "scenario_db = \<lparr>links_table = [], sites_table = [], site_grades_table = [scenario_grade]\<rparr>"

text \<open>All grade values of a dict of degraded items, in dict order.\<close>

definition all_grades_of :: "(int, SiteGrade list) dict \<Rightarrow> real list" where
  "all_grades_of degraded_items = concat (map (\<lambda>(k, grades). map grade grades) degraded_items)"

text \<open>A grade record with only link, time and grade set.\<close>

definition plain_grade :: "int \<Rightarrow> datetime \<Rightarrow> real \<Rightarrow> SiteGrade" where
  "plain_grade lid t x =
     \<lparr>grade_link_id = lid, timestamp = t, ib_degradation = None, ob_degradation = None,
      ib_instability = None, ob_instability = None, congestion = None, grade = x\<rparr>"

text \<open>
  A grade record on the documented scales: grade within 0..10, degradation, instability
  and congestion (null counted as 0) within 0..1.
\<close>

definition well_scaled :: "SiteGrade \<Rightarrow> bool" where
  "well_scaled g =
     (0 \<le> grade g \<and> grade g \<le> 10 \<and>
      0 \<le> or0 (ib_degradation g) \<and> or0 (ib_degradation g) \<le> 1 \<and>
      0 \<le> or0 (ob_degradation g) \<and> or0 (ob_degradation g) \<le> 1 \<and>
      0 \<le> or0 (ib_instability g) \<and> or0 (ib_instability g) \<le> 1 \<and>
      0 \<le> or0 (ob_instability g) \<and> or0 (ob_instability g) \<le> 1 \<and>
      0 \<le> or0 (congestion g) \<and> or0 (congestion g) \<le> 1)"

definition in_unit :: "real \<Rightarrow> bool" where
  "in_unit x = (0 \<le> x \<and> x \<le> 1)"

text \<open>A record whose inbound degradation is stored as 1.5.\<close>

definition overdriven_grade :: SiteGrade where
  "overdriven_grade =
     \<lparr>grade_link_id = 42, timestamp = 63900000000000000,
      ib_degradation = Some 1.5, ob_degradation = Some 0.5,
      ib_instability = None, ob_instability = None, congestion = None, grade = 3\<rparr>"

text \<open>
  The specification's network scenario: three links, each with one record graded below
  6.5 in the same hour (the records also carry instability and congestion readings).
\<close>

definition full_grade :: "int \<Rightarrow> datetime \<Rightarrow> real \<Rightarrow> SiteGrade" where
  "full_grade lid t x =
     \<lparr>grade_link_id = lid, timestamp = t, ib_degradation = Some 0.25, ob_degradation = Some 0.3,
      ib_instability = Some 0.5, ob_instability = Some 0.4, congestion = Some 0.2, grade = x\<rparr>"

definition three_links :: "(int, SiteGrade list) dict" where
  "three_links =
     [(1, [full_grade 1 63900000000000000 6.0]),
      (2, [full_grade 2 63900000060000000 5.0]),
      (3, [full_grade 3 63900000120000000 6.4])]"

text \<open>
  Two degraded links, the first with two records inside one hour, the second with one
  record five hours later.
\<close>

definition same_link_twice :: "(int, SiteGrade list) dict" where
  "same_link_twice =
     [(1, [plain_grade 1 63900000000000000 5.0, plain_grade 1 63900000060000000 6.0]),
      (2, [plain_grade 2 63900018000000000 6.5])]"





section \<open>Anomaly detector (app/services/anomaly\_detector.py)\<close>

text \<open>
  The input records are dicts from column name to a Python value. polars, numpy and
  scikit-learn are outside the repository: a polars frame is modelled by its columns
  (name, dtype, cells), and the library calls are parameters of the model, gathered in a
  record.
\<close>

datatype pyvalue = PyNone | PyInt int | PyFloat real | PyStr string | PyBool bool | PyDatetime datetime

type_synonym pyrecord = "(string, pyvalue) dict"

datatype dtype = Float64 | Float32 | Int64 | Int32 | Utf8 | Boolean | Datetime | Object

datatype cell = Null | Num real | Other

record Series =
  series_name :: string
  series_dtype :: dtype
  series_cells :: "cell list"

record DataFrame =
  df_columns :: "Series list"
  df_height :: nat

text \<open>
  \<open>pl_DataFrame\<close> is \<open>pl.DataFrame(data)\<close>; \<open>fit_transform\<close> is the StandardScaler's;
  \<open>fit_predict\<close> and \<open>score_samples\<close> are those of
  \<open>IsolationForest(contamination=c, random_state=42, n_estimators=100)\<close>, given \<open>c\<close> and
  the scaled matrix (the fit can refuse its parameters).
\<close>

record library =
  pl_DataFrame :: "pyrecord list \<Rightarrow> DataFrame"
  fit_transform :: "real list list \<Rightarrow> real list list"
  fit_predict :: "real \<Rightarrow> real list list \<Rightarrow> error + int list"
  score_samples :: "real \<Rightarrow> real list list \<Rightarrow> real list"

definition is_numeric :: "dtype \<Rightarrow> bool" where
  "is_numeric t = (t = Float64 \<or> t = Float32 \<or> t = Int64 \<or> t = Int32)"

definition get_column :: "DataFrame \<Rightarrow> string \<Rightarrow> Series option" where
  "get_column df col = find (\<lambda>s. series_name s = col) (df_columns df)"

text \<open>\<open>fill_null(0)\<close> and the conversion to a float array, cell by cell.\<close>

definition cell_value :: "cell list \<Rightarrow> nat \<Rightarrow> real" where
  "cell_value cells i =
     (if i < length cells then (case cells ! i of Num x \<Rightarrow> x | _ \<Rightarrow> 0) else 0)"

definition to_numpy :: "DataFrame \<Rightarrow> string list \<Rightarrow> real list list" where
  "to_numpy df cols =
     map (\<lambda>i. map (\<lambda>col. case get_column df col of
                             None \<Rightarrow> 0
                           | Some s \<Rightarrow> cell_value (series_cells s) i) cols)
       [0..<df_height df]"

definition prepare_data ::
  "library \<Rightarrow> pyrecord list \<Rightarrow> string list \<Rightarrow> error + (real list list \<times> DataFrame)" where
  "prepare_data lib data feature_columns =
     (let df = pl_DataFrame lib data;
          numeric_cols = filter (\<lambda>col. case get_column df col of
                                          None \<Rightarrow> False
                                        | Some s \<Rightarrow> is_numeric (series_dtype s)) feature_columns
      in if numeric_cols = [] then Inl ValueError
         else Inr (to_numpy df numeric_cols, df))"

subsection \<open>Affected metrics and severity\<close>

text \<open>\<open>np.mean\<close> and \<open>np.std\<close> (population standard deviation) of a column.\<close>

definition np_std :: "real list \<Rightarrow> real" where
  "np_std xs = sqrt (average (map (\<lambda>x. (x - average xs)\<^sup>2) xs))"

fun collect :: "(error + 'a) list \<Rightarrow> error + 'a list" where
  "collect [] = Inr []"
| "collect (Inl e # rs) = Inl e"
| "collect (Inr x # rs) = (case collect rs of Inl e \<Rightarrow> Inl e | Inr xs \<Rightarrow> Inr (x # xs))"

definition py_index :: "'a list \<Rightarrow> nat \<Rightarrow> error + 'a" where
  "py_index xs i = (if i < length xs then Inr (xs ! i) else Inl IndexError)"

definition identify_affected_metrics ::
  "real list \<Rightarrow> real list list \<Rightarrow> string list \<Rightarrow> error + string list" where
  "identify_affected_metrics sample all_samples feature_names =
     (let means = map average (transpose all_samples);
          stds = map np_std (transpose all_samples);
          hits = filter (\<lambda>(idx, value, mean, std). std > 0 \<and> \<bar>value - mean\<bar> > 2 * std)
                   (zip [0..<length sample] (zip sample (zip means stds)))
      in case collect (map (\<lambda>(idx, _). py_index feature_names idx) hits) of
           Inl e \<Rightarrow> Inl e
         | Inr affected \<Rightarrow> Inr (if affected \<noteq> [] then affected else take 1 feature_names))"

text \<open>
  \<open>np.percentile(a, q)\<close> with the default linear interpolation; of an empty array it is
  nan (\<open>None\<close> here), and every comparison with nan is false.
\<close>

definition np_percentile :: "real list \<Rightarrow> real \<Rightarrow> real option" where
  "np_percentile xs q =
     (if xs = [] then None
      else let a = sort xs;
               n = length a;
               h = real (n - 1) * (q / 100);
               lo = nat \<lfloor>h\<rfloor>;
               hi = min (lo + 1) (n - 1)
           in Some (a ! lo + (h - real lo) * (a ! hi - a ! lo)))"

definition calculate_severity :: "real \<Rightarrow> real list \<Rightarrow> string" where
  "calculate_severity score all_scores =
     (let score_abs = \<bar>score\<bar> in
      case np_percentile (map abs all_scores) 90 of
        None \<Rightarrow> ''low''
      | Some percentile \<Rightarrow>
          if score_abs > percentile * 1.5 then ''critical''
          else if score_abs > percentile then ''high''
          else if score_abs > percentile * 0.5 then ''medium''
          else ''low'')"

text \<open>The order low < medium < high < critical on the labels.\<close>

definition severity_rank :: "string \<Rightarrow> nat" where
  "severity_rank s =
     (if s = ''critical'' then 3 else if s = ''high'' then 2 else if s = ''medium'' then 1 else 0)"

subsection \<open>Recommendations of the detector\<close>

definition generate_network_recommendations_ad :: "string list \<Rightarrow> string \<Rightarrow> string list" where
  "generate_network_recommendations_ad affected sev =
     (let recs =
        (if ''bandwidth_usage'' \<in> set affected
         then [''Monitor bandwidth consumption and consider upgrading capacity''] else []) @
        (if ''packet_loss'' \<in> set affected
         then [''Check network equipment and cable connections for packet loss''] else []) @
        (if ''latency'' \<in> set affected
         then [''Investigate routing paths and potential bottlenecks''] else []) @
        (if ''error_rate'' \<in> set affected
         then [''Review error logs and check for hardware issues''] else []) @
        (if ''connection_count'' \<in> set affected
         then [''Analyze connection patterns and consider load balancing''] else []) @
        (if sev \<in> set [''critical'', ''high'']
         then [''Immediate investigation recommended - potential service impact''] else [])
      in if recs \<noteq> [] then recs else [''Review network metrics and establish baseline''])"

definition generate_site_recommendations_ad :: "string list \<Rightarrow> string \<Rightarrow> string list" where
  "generate_site_recommendations_ad affected sev =
     (let recs =
        (if ''response_time'' \<in> set affected
         then [''Optimize database queries and implement caching strategies''] else []) @
        (if ''uptime_percentage'' \<in> set affected
         then [''Investigate recent downtime and implement redundancy''] else []) @
        (if ''error_count'' \<in> set affected
         then [''Review application logs and fix recurring errors''] else []) @
        (if ''cpu_usage'' \<in> set affected
         then [''Consider scaling compute resources or optimizing CPU-intensive tasks''] else []) @
        (if ''memory_usage'' \<in> set affected
         then [''Check for memory leaks and optimize memory allocation''] else []) @
        (if sev \<in> set [''critical'', ''high'']
         then [''Critical issue detected - immediate action required''] else [])
      in if recs \<noteq> [] then recs else [''Monitor site performance metrics''])"

definition generate_link_recommendations_ad :: "string list \<Rightarrow> string \<Rightarrow> string list" where
  "generate_link_recommendations_ad affected sev =
     (let recs =
        (if ''throughput'' \<in> set affected
         then [''Verify link capacity and check for congestion''] else []) @
        (if ''utilization'' \<in> set affected
         then [''Consider link upgrade or traffic optimization''] else []) @
        (if ''errors'' \<in> set affected
         then [''Inspect physical connections and replace faulty equipment''] else []) @
        (if ''discards'' \<in> set affected
         then [''Review QoS policies and buffer configurations''] else []) @
        (if sev \<in> set [''critical'', ''high'']
         then [''High-priority link issue - potential connectivity impact''] else [])
      in if recs \<noteq> [] then recs else [''Monitor link health metrics''])"

subsection \<open>The three detection operations\<close>

text \<open>
  One reported anomaly: the dict with keys index, anomaly\_detected, anomaly\_score,
  affected\_metrics, severity, timestamp, recommendations.
\<close>

record Anomaly =
  anomaly_index :: nat
  anomaly_detected :: bool
  anomaly_score :: real
  affected_metrics :: "string list"
  anomaly_severity :: string
  anomaly_timestamp :: pyvalue
  anomaly_recommendations :: "string list"

text \<open>
  The body of the reporting loop for a row the forest flagged (prediction -1).
  \<open>clock idx\<close> is the reading of \<open>datetime.utcnow()\<close> taken for row \<open>idx\<close> as the default
  of \<open>data[idx].get('timestamp', ...)\<close>.
\<close>

definition anomaly_of ::
  "(string list \<Rightarrow> string \<Rightarrow> string list) \<Rightarrow> real list list \<Rightarrow> pyrecord list \<Rightarrow> string list \<Rightarrow>
   real list \<Rightarrow> (nat \<Rightarrow> datetime) \<Rightarrow> nat \<Rightarrow> real \<Rightarrow> error + Anomaly" where
  "anomaly_of recommend X data feature_columns anomaly_scores clock idx score =
     (case py_index X idx of
        Inl e \<Rightarrow> Inl e
      | Inr sample \<Rightarrow>
          (case identify_affected_metrics sample X feature_columns of
             Inl e \<Rightarrow> Inl e
           | Inr affected \<Rightarrow>
               (let sev = calculate_severity score anomaly_scores in
                case py_index data idx of
                  Inl e \<Rightarrow> Inl e
                | Inr r \<Rightarrow>
                    Inr \<lparr>anomaly_index = idx,
                         anomaly_detected = True,
                         anomaly_score = \<bar>score\<bar>,
                         affected_metrics = affected,
                         anomaly_severity = sev,
                         anomaly_timestamp =
                           (case dict_get r ''timestamp'' of
                              None \<Rightarrow> PyDatetime (clock idx) | Some v \<Rightarrow> v),
                         anomaly_recommendations = recommend affected sev\<rparr>)))"

text \<open>
  The three operations have the same body and differ in the feature columns and the
  recommendation texts. An exception inside the \<open>try\<close> is logged and raised again.
\<close>

definition detect_anomalies ::
  "string list \<Rightarrow> (string list \<Rightarrow> string \<Rightarrow> string list) \<Rightarrow> library \<Rightarrow> pyrecord list \<Rightarrow> real \<Rightarrow>
   (nat \<Rightarrow> datetime) \<Rightarrow> error + Anomaly list" where
  "detect_anomalies feature_columns recommend lib data sensitivity clock =
     (case prepare_data lib data feature_columns of
        Inl e \<Rightarrow> Inl e
      | Inr (X, df) \<Rightarrow>
          if length X < 10 then Inr []
          else
            let contamination = 1 - sensitivity;
                X_scaled = fit_transform lib X in
            case fit_predict lib contamination X_scaled of
              Inl e \<Rightarrow> Inl e
            | Inr predictions \<Rightarrow>
                (let anomaly_scores = score_samples lib contamination X_scaled in
                 collect
                   (map (\<lambda>(idx, pred, score).
                           anomaly_of recommend X data feature_columns anomaly_scores clock idx score)
                      (filter (\<lambda>(idx, pred, score). pred = - 1)
                         (zip [0..<length predictions] (zip predictions anomaly_scores))))))"

definition network_columns :: "string list" where
  "network_columns = [''bandwidth_usage'', ''packet_loss'', ''latency'', ''error_rate'', ''connection_count'']"

definition site_columns :: "string list" where
  "site_columns = [''response_time'', ''uptime_percentage'', ''request_count'', ''error_count'',
                   ''cpu_usage'', ''memory_usage'']"

definition link_columns :: "string list" where
  "link_columns = [''throughput'', ''utilization'', ''errors'', ''discards'']"

definition detect_network_anomalies ::
  "library \<Rightarrow> pyrecord list \<Rightarrow> real \<Rightarrow> (nat \<Rightarrow> datetime) \<Rightarrow> error + Anomaly list" where
  "detect_network_anomalies =
     detect_anomalies network_columns generate_network_recommendations_ad"

definition detect_site_anomalies ::
  "library \<Rightarrow> pyrecord list \<Rightarrow> real \<Rightarrow> (nat \<Rightarrow> datetime) \<Rightarrow> error + Anomaly list" where
  "detect_site_anomalies =
     detect_anomalies site_columns generate_site_recommendations_ad"

definition detect_link_anomalies ::
  "library \<Rightarrow> pyrecord list \<Rightarrow> real \<Rightarrow> (nat \<Rightarrow> datetime) \<Rightarrow> error + Anomaly list" where
  "detect_link_anomalies =
     detect_anomalies link_columns generate_link_recommendations_ad"

subsection \<open>A library instance\<close>

text \<open>
  A library instance for records that carry one float under a given key: the frame
  has that one Float64 column and one row per record; the scaler is the identity; the
  forest flags the first two rows, with scores -0.7 and -0.4, and scores every other row
  -0.5.
\<close>

definition one_column_frame :: "string \<Rightarrow> pyrecord list \<Rightarrow> DataFrame" where
  "one_column_frame col data =
     \<lparr>df_columns =
        [\<lparr>series_name = col, series_dtype = Float64,
          series_cells = map (\<lambda>r. case dict_get r col of Some (PyFloat x) \<Rightarrow> Num x | _ \<Rightarrow> Null) data\<rparr>],
      df_height = length data\<rparr>"

definition test_library :: "string \<Rightarrow> library" where
  "test_library col =
     \<lparr>pl_DataFrame = one_column_frame col,
      fit_transform = (\<lambda>X. X),
      fit_predict = (\<lambda>c X. Inr ([- 1, - 1] @ replicate (length X - 2) 1)),
      score_samples = (\<lambda>c X. [- 0.7, - 0.4] @ replicate (length X - 2) (- 0.5))\<rparr>"

definition records_of :: "string \<Rightarrow> nat \<Rightarrow> pyrecord list" where
  "records_of col n = replicate n [(col, PyFloat 1.0)]"

section \<open>Properties of ModelCache\<close>

lemma keys_Nil: "keys [] = []"
  by (simp add: keys_def)

lemma keys_Cons: "keys (e # d) = fst e # keys d"
  by (simp add: keys_def)

lemma keys_dict_set: "set (keys (dict_set d k v)) = insert k (set (keys d))"
  by (induction d k v rule: dict_set.induct) (auto simp: keys_Nil keys_Cons)

lemma length_dict_set:
  "length (dict_set d k v) = (if k \<in> set (keys d) then length d else Suc (length d))"
  by (induction d k v rule: dict_set.induct) (auto simp: keys_Nil keys_Cons)

lemma distinct_dict_set: "distinct (keys d) \<Longrightarrow> distinct (keys (dict_set d k v))"
  by (induction d k v rule: dict_set.induct) (auto simp: keys_Nil keys_Cons keys_dict_set)

lemma keys_dict_del: "distinct (keys d) \<Longrightarrow> set (keys (dict_del d k)) = set (keys d) - {k}"
  by (induction d k rule: dict_del.induct) (auto simp: keys_Nil keys_Cons)

lemma keys_dict_del_subset: "set (keys (dict_del d k)) \<subseteq> set (keys d)"
  by (induction d k rule: dict_del.induct) (auto simp: keys_Nil keys_Cons)

lemma distinct_dict_del: "distinct (keys d) \<Longrightarrow> distinct (keys (dict_del d k))"
  using keys_dict_del_subset
  by (induction d k rule: dict_del.induct) (fastforce simp: keys_Nil keys_Cons)+

lemma length_dict_del:
  "k \<in> set (keys d) \<Longrightarrow> Suc (length (dict_del d k)) = length d"
  by (induction d k rule: dict_del.induct) (auto simp: keys_Nil keys_Cons)

lemma dict_get_None: "dict_get d k = None \<longleftrightarrow> k \<notin> set (keys d)"
  by (induction d k rule: dict_get.induct) (auto simp: keys_Nil keys_Cons)

lemma dict_get_Some_mem: "dict_get d k = Some v \<Longrightarrow> (k, v) \<in> set d"
  by (induction d k rule: dict_get.induct) (auto split: if_splits)

lemma min_by_usage_mem: "min_by_usage best es \<in> set (best # es)"
  by (induction best es rule: min_by_usage.induct) auto

lemma tuple_less_trans: "tuple_less a b \<Longrightarrow> tuple_less b c \<Longrightarrow> tuple_less a c"
  by (auto simp: tuple_less_def)

lemma tuple_less_total: "\<not> tuple_less a b \<Longrightarrow> \<not> tuple_less b c \<Longrightarrow> \<not> tuple_less a c"
  by (cases a; cases b; cases c) (auto simp: tuple_less_def)

lemma min_by_usage_le_best:
  "\<not> tuple_less (usage (snd best)) (usage (snd (min_by_usage best es)))"
proof (induction best es rule: min_by_usage.induct)
  case (1 best)
  then show ?case by (simp add: tuple_less_def)
next
  case (2 best e es)
  show ?case
  proof (cases "tuple_less (usage (snd e)) (usage (snd best))")
    case True
    with 2 have "\<not> tuple_less (usage (snd e)) (usage (snd (min_by_usage e es)))" by simp
    moreover have "\<not> tuple_less (usage (snd best)) (usage (snd e))"
      using True by (auto simp: tuple_less_def)
    ultimately show ?thesis using True tuple_less_total by auto
  next
    case False
    with 2 show ?thesis by simp
  qed
qed

lemma min_by_usage_minimal:
  "x \<in> set (best # es) \<Longrightarrow> \<not> tuple_less (usage (snd x)) (usage (snd (min_by_usage best es)))"
proof (induction best es rule: min_by_usage.induct)
  case (1 best)
  then show ?case by (simp add: tuple_less_def)
next
  case (2 best e es)
  let ?b = "if tuple_less (usage (snd e)) (usage (snd best)) then e else best"
  have step: "min_by_usage best (e # es) = min_by_usage ?b es" by simp
  consider "x = best" | "x = e" | "x \<in> set es" using "2.prems" by auto
  then show ?case
  proof cases
    case 1
    have "\<not> tuple_less (usage (snd best)) (usage (snd ?b))"
      by (auto simp: tuple_less_def)
    moreover have "\<not> tuple_less (usage (snd ?b)) (usage (snd (min_by_usage ?b es)))"
      by (rule min_by_usage_le_best)
    ultimately show ?thesis unfolding step 1 using tuple_less_total by blast
  next
    case 2
    have "\<not> tuple_less (usage (snd e)) (usage (snd ?b))"
      by (auto simp: tuple_less_def)
    moreover have "\<not> tuple_less (usage (snd ?b)) (usage (snd (min_by_usage ?b es)))"
      by (rule min_by_usage_le_best)
    ultimately show ?thesis unfolding step 2 using tuple_less_total by blast
  next
    case 3
    then show ?thesis using "2.IH" by (auto split: if_splits)
  qed
qed


lemma evict_fields:
  "max_cache_size (evict_least_used c) = max_cache_size c"
  "ttl_minutes (evict_least_used c) = ttl_minutes c"
  by (simp_all add: evict_least_used_def split: list.splits)

lemma evict_victim:
  assumes "cache c \<noteq> []"
  shows "\<exists>victim \<in> set (cache c).
           (\<forall>e \<in> set (cache c). \<not> tuple_less (usage (snd e)) (usage (snd victim))) \<and>
           cache (evict_least_used c) = dict_del (cache c) (fst victim)"
proof -
  from assms obtain e es where ces: "cache c = e # es" by (cases "cache c") auto
  let ?v = "min_by_usage e es"
  have "?v \<in> set (cache c)" using min_by_usage_mem[of e es] ces by simp
  moreover have "\<forall>x \<in> set (cache c). \<not> tuple_less (usage (snd x)) (usage (snd ?v))"
    using min_by_usage_minimal[of _ e es] ces by simp
  moreover have "cache (evict_least_used c) = dict_del (cache c) (fst ?v)"
    by (simp add: evict_least_used_def ces)
  ultimately show ?thesis by blast
qed

lemma evict_length:
  assumes "cache c \<noteq> []"
  shows "Suc (length (cache (evict_least_used c))) = length (cache c)"
proof -
  from evict_victim[OF assms] obtain victim where
    v: "victim \<in> set (cache c)" "cache (evict_least_used c) = dict_del (cache c) (fst victim)"
    by blast
  have "fst victim \<in> set (keys (cache c))" using v(1) by (auto simp: keys_def)
  then show ?thesis using v(2) length_dict_del by metis
qed

lemma evict_keys_subset: "set (keys (cache (evict_least_used c))) \<subseteq> set (keys (cache c))"
proof (cases "cache c")
  case Nil
  then show ?thesis by (simp add: evict_least_used_def)
next
  case (Cons e es)
  then have "cache (evict_least_used c) = dict_del (cache c) (fst (min_by_usage e es))"
    by (simp add: evict_least_used_def)
  then show ?thesis using keys_dict_del_subset by metis
qed

lemma evict_distinct:
  assumes "distinct (keys (cache c))"
  shows "distinct (keys (cache (evict_least_used c)))"
proof (cases "cache c")
  case Nil
  then show ?thesis using assms by (simp add: evict_least_used_def)
next
  case (Cons e es)
  then have "cache (evict_least_used c) = dict_del (cache c) (fst (min_by_usage e es))"
    by (simp add: evict_least_used_def)
  then show ?thesis using distinct_dict_del[OF assms] by simp
qed

lemma set_fields:
  "max_cache_size (ModelCache_set c ty fc ds m t1 t2 t3) = max_cache_size c"
  by (simp add: ModelCache_set_def Let_def evict_fields)

lemma set_distinct:
  "distinct (keys (cache c)) \<Longrightarrow> distinct (keys (cache (ModelCache_set c ty fc ds m t1 t2 t3)))"
  by (simp add: ModelCache_set_def Let_def evict_distinct distinct_dict_set)

lemma set_keys_subset:
  "set (keys (cache (ModelCache_set c ty fc ds m t1 t2 t3)))
     \<subseteq> insert (generate_cache_key ty fc ds) (set (keys (cache c)))"
  using evict_keys_subset[of c]
  by (auto simp: ModelCache_set_def Let_def keys_dict_set)

lemma set_length_new:
  assumes "1 \<le> max_cache_size c" and "generate_cache_key ty fc ds \<notin> set (keys (cache c))"
  shows "length (cache (ModelCache_set c ty fc ds m t1 t2 t3)) =
           (if int (length (cache c)) \<ge> max_cache_size c then length (cache c)
            else Suc (length (cache c)))"
proof (cases "int (length (cache c)) \<ge> max_cache_size c")
  case True
  with assms(1) have ne: "cache c \<noteq> []" by auto
  have "generate_cache_key ty fc ds \<notin> set (keys (cache (evict_least_used c)))"
    using assms(2) evict_keys_subset[of c] by blast
  then show ?thesis
    using True evict_length[OF ne] by (simp add: ModelCache_set_def Let_def length_dict_set)
next
  case False
  then show ?thesis using assms(2) by (simp add: ModelCache_set_def Let_def length_dict_set)
qed

lemma set_all_length:
  assumes "1 \<le> max_cache_size c" and "int (length (cache c)) \<le> max_cache_size c"
    and "distinct (keys (cache c))" and "distinct (map call_key calls)"
    and "set (map call_key calls) \<inter> set (keys (cache c)) = {}"
  shows "length (cache (set_all c calls)) =
           min (length (cache c) + length calls) (nat (max_cache_size c))"
  using assms
proof (induction calls arbitrary: c)
  case Nil
  then show ?case by (simp add: set_all_def)
next
  case (Cons a calls)
  let ?c = "apply_set c a"
  have fresh: "call_key a \<notin> set (keys (cache c))" using Cons.prems(5) by auto
  have len: "length (cache ?c) =
      (if int (length (cache c)) \<ge> max_cache_size c then length (cache c) else Suc (length (cache c)))"
    using set_length_new[OF Cons.prems(1)] fresh by (simp add: apply_set_def call_key_def)
  have mx: "max_cache_size ?c = max_cache_size c" by (simp add: apply_set_def set_fields)
  have d: "distinct (keys (cache ?c))"
    using Cons.prems(3) by (simp add: apply_set_def set_distinct)
  have sub: "set (keys (cache ?c)) \<subseteq> insert (call_key a) (set (keys (cache c)))"
    using set_keys_subset by (simp add: apply_set_def call_key_def)
  have disj: "set (map call_key calls) \<inter> set (keys (cache ?c)) = {}"
  proof -
    have "call_key a \<notin> set (map call_key calls)" using Cons.prems(4) by simp
    moreover have "set (map call_key calls) \<inter> set (keys (cache c)) = {}"
      using Cons.prems(5) by auto
    ultimately show ?thesis using sub by blast
  qed
  have le: "int (length (cache ?c)) \<le> max_cache_size ?c"
    using len mx Cons.prems(2) by (auto split: if_splits)
  have "length (cache (set_all ?c calls)) =
          min (length (cache ?c) + length calls) (nat (max_cache_size ?c))"
    using Cons.IH[of ?c] Cons.prems(1,4) mx d disj le by simp
  moreover have "set_all c (a # calls) = set_all ?c calls" by (simp add: set_all_def)
  ultimately show ?case using len mx Cons.prems(1,2) by (auto split: if_splits)
qed

lemma get_expired:
  assumes "dict_get (cache c) (generate_cache_key ty fc ds) = Some item"
    and "now > expires_at item"
  shows "ModelCache_get c ty fc ds now now' =
           (None, c\<lparr>cache := dict_del (cache c) (generate_cache_key ty fc ds)\<rparr>)"
  using assms by (simp add: ModelCache_get_def Let_def)

lemma dict_get_dict_del:
  "distinct (keys d) \<Longrightarrow> dict_get (dict_del d k) k = None"
  by (simp add: dict_get_None keys_dict_del)


lemmas cache_eval =
  set_all_def apply_set_def ModelCache_set_def ModelCache_get_def ModelCache_init_def
  evict_least_used_def usage_def tuple_less_def call_key_def generate_cache_key_def
  str_int_def str_nat.simps digit_char_def keys_def Let_def

lemma test_keys: "map call_key test_calls = [''network_5_100'', ''site_6_100'', ''link_4_100'', ''network_5_200'']"
  by (simp add: test_calls_def cache_eval)

lemma test_run: "keys (cache (set_all (ModelCache_init 60 3) test_calls)) = [''site_6_100'', ''link_4_100'', ''network_5_200'']"
  by (simp add: test_calls_def cache_eval)


lemma full_cache_eval:
  "full_cache = \<lparr>ttl_minutes = 60, max_cache_size = 3, cache =
     [(''network_5_100'', \<lparr>model = (), created_at = 1000, expires_at = 3600001000, hits = 0, last_accessed = 1000\<rparr>),
      (''site_6_100'', \<lparr>model = (), created_at = 2000, expires_at = 3600002000, hits = 0, last_accessed = 2000\<rparr>),
      (''link_4_100'', \<lparr>model = (), created_at = 3000, expires_at = 3600003000, hits = 0, last_accessed = 3000\<rparr>)]\<rparr>"
  by (simp add: full_cache_def test_calls_def cache_eval)

text \<open>
  The entry that \<open>_evict_least_used\<close> removes is the first one, in dict order, whose
  (hits, last\_accessed) tuple is minimal: every entry before it has a strictly greater
  tuple, no entry after it a smaller one.
\<close>

lemma tuple_less_below:
  "tuple_less a b \<Longrightarrow> \<not> tuple_less c b \<Longrightarrow> tuple_less a c"
  by (cases a; cases b; cases c) (auto simp: tuple_less_def)

lemma min_by_usage_first_aux:
  "(\<forall>x \<in> set p1. tuple_less (usage (snd best)) (usage (snd x))) \<Longrightarrow>
   (\<forall>x \<in> set p2. \<not> tuple_less (usage (snd x)) (usage (snd best))) \<Longrightarrow>
   \<exists>pre post. p1 @ best # p2 @ es = pre @ min_by_usage best es # post \<and>
     (\<forall>x \<in> set pre. tuple_less (usage (snd (min_by_usage best es))) (usage (snd x)))"
proof (induction es arbitrary: best p1 p2)
  case Nil
  then show ?case by auto
next
  case (Cons e es)
  show ?case
  proof (cases "tuple_less (usage (snd e)) (usage (snd best))")
    case True
    have a: "\<forall>x \<in> set (p1 @ best # p2). tuple_less (usage (snd e)) (usage (snd x))"
    proof
      fix x assume "x \<in> set (p1 @ best # p2)"
      then consider "x \<in> set p1" | "x = best" | "x \<in> set p2" by auto
      then show "tuple_less (usage (snd e)) (usage (snd x))"
      proof cases
        case 1
        with Cons.prems(1) have "tuple_less (usage (snd best)) (usage (snd x))" by blast
        with True show ?thesis by (rule tuple_less_trans)
      next
        case 2
        with True show ?thesis by simp
      next
        case 3
        with Cons.prems(2) have "\<not> tuple_less (usage (snd x)) (usage (snd best))" by blast
        with True show ?thesis by (rule tuple_less_below)
      qed
    qed
    have b: "\<forall>x \<in> set []. \<not> tuple_less (usage (snd x)) (usage (snd e))" by simp
    from Cons.IH[OF a b] True show ?thesis by simp
  next
    case False
    have b: "\<forall>x \<in> set (p2 @ [e]). \<not> tuple_less (usage (snd x)) (usage (snd best))"
      using Cons.prems(2) False by auto
    from Cons.IH[OF Cons.prems(1) b] False show ?thesis by simp
  qed
qed

lemma min_by_usage_first:
  "\<exists>pre post. best # es = pre @ min_by_usage best es # post \<and>
     (\<forall>x \<in> set pre. tuple_less (usage (snd (min_by_usage best es))) (usage (snd x)))"
  using min_by_usage_first_aux[of "[]" best "[]" es] by simp

lemma dict_del_split:
  "fst v \<notin> set (keys pre) \<Longrightarrow> dict_del (pre @ v # post) (fst v) = pre @ post"
proof (induction pre)
  case Nil
  then show ?case by (cases v) simp
next
  case (Cons a pre)
  then show ?case by (cases a) (auto simp: keys_Cons)
qed

lemma evict_first_minimal:
  assumes "cache c \<noteq> []" and "distinct (keys (cache c))"
  shows "\<exists>pre victim post. cache c = pre @ victim # post \<and>
           (\<forall>e \<in> set pre. tuple_less (usage (snd victim)) (usage (snd e))) \<and>
           (\<forall>e \<in> set post. \<not> tuple_less (usage (snd e)) (usage (snd victim))) \<and>
           cache (evict_least_used c) = pre @ post"
proof -
  from assms(1) obtain e es where ces: "cache c = e # es" by (cases "cache c") auto
  let ?v = "min_by_usage e es"
  from min_by_usage_first[of e es] obtain pre post where
    s: "e # es = pre @ ?v # post"
       "\<forall>x \<in> set pre. tuple_less (usage (snd ?v)) (usage (snd x))" by blast
  have m: "\<forall>x \<in> set post. \<not> tuple_less (usage (snd x)) (usage (snd ?v))"
  proof
    fix x assume "x \<in> set post"
    then have "x \<in> set (e # es)" unfolding s(1) by simp
    then show "\<not> tuple_less (usage (snd x)) (usage (snd ?v))" by (rule min_by_usage_minimal)
  qed
  have "distinct (keys (pre @ ?v # post))" using assms(2) ces s(1) by simp
  then have "fst ?v \<notin> set (keys pre)" by (auto simp: keys_def)
  then have "dict_del (pre @ ?v # post) (fst ?v) = pre @ post" by (rule dict_del_split)
  moreover have "cache (evict_least_used c) = dict_del (e # es) (fst ?v)"
    by (simp add: evict_least_used_def ces)
  ultimately have "cache (evict_least_used c) = pre @ post" unfolding s(1) by simp
  moreover have "cache c = pre @ ?v # post" using ces s(1) by simp
  ultimately show ?thesis using s(2) m by blast
qed

text \<open>
  What the cache does for a capacity of at least 1. Holding at most its capacity, \<open>set\<close>
  called with capacity + 1 distinct new keys leaves exactly capacity entries; a \<open>set\<close> on
  a non-empty cache at or above capacity removes an entry whose (hits, last\_accessed)
  tuple no other entry's is less than, then stores the new entry; and \<open>get\<close> on a key
  whose expiry time has passed returns \<open>None\<close> and deletes the entry.
\<close>

lemma ModelCache_capacity_eviction_expiry:
  "(1 \<le> max_cache_size c \<and> int (length (cache c)) \<le> max_cache_size c \<and>
    distinct (keys (cache c)) \<and> distinct (map call_key calls) \<and>
    set (map call_key calls) \<inter> set (keys (cache c)) = {} \<and>
    int (length calls) = max_cache_size c + 1
      \<longrightarrow> int (length (cache (set_all c calls))) = max_cache_size c)
   \<and> (cache c \<noteq> [] \<and> max_cache_size c \<le> int (length (cache c))
      \<longrightarrow> (\<exists>victim \<in> set (cache c).
            (\<forall>e \<in> set (cache c). \<not> tuple_less (usage (snd e)) (usage (snd victim))) \<and>
            cache (ModelCache_set c ty fc ds m t1 t2 t3) =
              dict_set (dict_del (cache c) (fst victim)) (generate_cache_key ty fc ds)
                \<lparr>model = m, created_at = t1, expires_at = t2 + ttl_minutes c * 60000000,
                 hits = 0, last_accessed = t3\<rparr>))
   \<and> (distinct (keys (cache c)) \<and>
      dict_get (cache c) (generate_cache_key ty fc ds) = Some item \<and> expires_at item < now
      \<longrightarrow> ModelCache_get c ty fc ds now now' =
            (None, c\<lparr>cache := dict_del (cache c) (generate_cache_key ty fc ds)\<rparr>) \<and>
          generate_cache_key ty fc ds
            \<notin> set (keys (cache (snd (ModelCache_get c ty fc ds now now')))))"
proof (intro conjI impI)
  assume h: "1 \<le> max_cache_size c \<and> int (length (cache c)) \<le> max_cache_size c \<and>
    distinct (keys (cache c)) \<and> distinct (map call_key calls) \<and>
    set (map call_key calls) \<inter> set (keys (cache c)) = {} \<and>
    int (length calls) = max_cache_size c + 1"
  then have "length (cache (set_all c calls)) =
      min (length (cache c) + length calls) (nat (max_cache_size c))"
    using set_all_length[of c calls] by blast
  with h show "int (length (cache (set_all c calls))) = max_cache_size c" by auto
next
  assume h: "cache c \<noteq> [] \<and> max_cache_size c \<le> int (length (cache c))"
  from evict_victim[of c] h obtain victim where
    v: "victim \<in> set (cache c)"
       "\<forall>e \<in> set (cache c). \<not> tuple_less (usage (snd e)) (usage (snd victim))"
       "cache (evict_least_used c) = dict_del (cache c) (fst victim)"
    by blast
  have "cache (ModelCache_set c ty fc ds m t1 t2 t3) =
          dict_set (dict_del (cache c) (fst victim)) (generate_cache_key ty fc ds)
            \<lparr>model = m, created_at = t1, expires_at = t2 + ttl_minutes c * 60000000,
             hits = 0, last_accessed = t3\<rparr>"
    using h v(3) by (simp add: ModelCache_set_def Let_def)
  with v(1,2) show "\<exists>victim \<in> set (cache c).
            (\<forall>e \<in> set (cache c). \<not> tuple_less (usage (snd e)) (usage (snd victim))) \<and>
            cache (ModelCache_set c ty fc ds m t1 t2 t3) =
              dict_set (dict_del (cache c) (fst victim)) (generate_cache_key ty fc ds)
                \<lparr>model = m, created_at = t1, expires_at = t2 + ttl_minutes c * 60000000,
                 hits = 0, last_accessed = t3\<rparr>"
    by blast
next
  assume h: "distinct (keys (cache c)) \<and>
      dict_get (cache c) (generate_cache_key ty fc ds) = Some item \<and> expires_at item < now"
  then show "ModelCache_get c ty fc ds now now' =
            (None, c\<lparr>cache := dict_del (cache c) (generate_cache_key ty fc ds)\<rparr>)"
    using get_expired by blast
  then show "generate_cache_key ty fc ds
            \<notin> set (keys (cache (snd (ModelCache_get c ty fc ds now now'))))"
    using h by (simp add: keys_dict_del)
qed

text \<open>
  The same on the test's scenario: capacity 3 and four distinct keys leave three entries;
  a fourth \<open>set\<close> on the full cache evicts a minimal entry; an expired key is a miss and is
  removed.
\<close>

lemma ModelCache_capacity_eviction_expiry_witness:
  "int (length (cache (set_all (ModelCache_init 60 3) test_calls))) = 3
   \<and> (\<exists>victim \<in> set (cache full_cache).
        (\<forall>e \<in> set (cache full_cache). \<not> tuple_less (usage (snd e)) (usage (snd victim))) \<and>
        cache (ModelCache_set full_cache ''network'' 5 200 () 4000 4000 4000) =
          dict_set (dict_del (cache full_cache) (fst victim)) (generate_cache_key ''network'' 5 200)
            \<lparr>model = (), created_at = 4000, expires_at = 4000 + ttl_minutes full_cache * 60000000,
             hits = 0, last_accessed = 4000\<rparr>)
   \<and> ModelCache_get full_cache ''site'' 6 100 3600002001 3600002001 =
        (None, full_cache\<lparr>cache := dict_del (cache full_cache) (generate_cache_key ''site'' 6 100)\<rparr>)
   \<and> generate_cache_key ''site'' 6 100
        \<notin> set (keys (cache (snd (ModelCache_get full_cache ''site'' 6 100 3600002001 3600002001))))"
proof -
  let ?c0 = "ModelCache_init 60 3 :: unit ModelCache"
  let ?item = "\<lparr>model = (), created_at = 2000, expires_at = 3600002000, hits = 0, last_accessed = 2000\<rparr>
                :: unit cached_item"
  have p1: "1 \<le> max_cache_size ?c0 \<and> int (length (cache ?c0)) \<le> max_cache_size ?c0 \<and>
    distinct (keys (cache ?c0)) \<and> distinct (map call_key test_calls) \<and>
    set (map call_key test_calls) \<inter> set (keys (cache ?c0)) = {} \<and>
    int (length test_calls) = max_cache_size ?c0 + 1"
    by (simp add: test_keys) (simp add: ModelCache_init_def keys_def test_calls_def)
  have p2: "cache full_cache \<noteq> [] \<and> max_cache_size full_cache \<le> int (length (cache full_cache))"
    by (simp add: full_cache_eval)
  have p3: "distinct (keys (cache full_cache)) \<and>
      dict_get (cache full_cache) (generate_cache_key ''site'' 6 100) = Some ?item \<and>
      expires_at ?item < 3600002001"
    by (simp add: full_cache_eval cache_eval)
  from ModelCache_capacity_eviction_expiry[of ?c0 test_calls] p1
  have a: "int (length (cache (set_all ?c0 test_calls))) = 3"
    by (simp add: ModelCache_init_def)
  from ModelCache_capacity_eviction_expiry[of full_cache _ "''network''" 5 200 "()" 4000 4000 4000] p2
  have b: "\<exists>victim \<in> set (cache full_cache).
        (\<forall>e \<in> set (cache full_cache). \<not> tuple_less (usage (snd e)) (usage (snd victim))) \<and>
        cache (ModelCache_set full_cache ''network'' 5 200 () 4000 4000 4000) =
          dict_set (dict_del (cache full_cache) (fst victim)) (generate_cache_key ''network'' 5 200)
            \<lparr>model = (), created_at = 4000, expires_at = 4000 + ttl_minutes full_cache * 60000000,
             hits = 0, last_accessed = 4000\<rparr>"
    by blast
  from ModelCache_capacity_eviction_expiry[of full_cache _ "''site''" 6 100 _ _ _ _ ?item 3600002001 3600002001] p3
  have c: "ModelCache_get full_cache ''site'' 6 100 3600002001 3600002001 =
        (None, full_cache\<lparr>cache := dict_del (cache full_cache) (generate_cache_key ''site'' 6 100)\<rparr>)
     \<and> generate_cache_key ''site'' 6 100
        \<notin> set (keys (cache (snd (ModelCache_get full_cache ''site'' 6 100 3600002001 3600002001))))"
    by blast
  from a b c show ?thesis by blast
qed

text \<open>
  C3. Inserting capacity + 1 distinct keys should leave exactly capacity entries, and
  max\_cache\_size is documented as the maximum number of models to cache. For capacity 0
  the code does otherwise: the first \<open>set\<close> finds nothing to evict in the empty cache and
  stores its entry all the same, so one key (capacity + 1 keys) leaves one entry, more
  than the maximum 0; a second key evicts the first and again leaves one entry.
\<close>

theorem ModelCache_capacity_zero_exceeds_maximum:
  "max_cache_size (ModelCache_init 60 0 :: unit ModelCache) = 0 \<and>
   cache (ModelCache_init 60 0 :: unit ModelCache) = [] \<and>
   length (take 1 test_calls) = 0 + 1 \<and>
   length (cache (set_all (ModelCache_init 60 0) (take 1 test_calls))) = 1 \<and>
   keys (cache (set_all (ModelCache_init 60 0) (take 2 test_calls))) = [''site_6_100'']"
  by (simp add: test_calls_def cache_eval)

text \<open>
  C10. \<open>set\<close> on a key that is already present, in a cache holding exactly
  max\_cache\_size entries, first evicts an entry minimal in (hits, last\_accessed) and
  then overwrites; when the evicted entry is another key, that key is gone and the cache
  is one entry below capacity.
\<close>

theorem set_existing_key_at_capacity:
  "distinct (keys (cache c)) \<and> generate_cache_key ty fc ds \<in> set (keys (cache c)) \<and>
   int (length (cache c)) = max_cache_size c
   \<longrightarrow> (\<exists>victim \<in> set (cache c).
         (\<forall>e \<in> set (cache c). \<not> tuple_less (usage (snd e)) (usage (snd victim))) \<and>
         cache (ModelCache_set c ty fc ds m t1 t2 t3) =
           dict_set (dict_del (cache c) (fst victim)) (generate_cache_key ty fc ds)
             \<lparr>model = m, created_at = t1, expires_at = t2 + ttl_minutes c * 60000000,
              hits = 0, last_accessed = t3\<rparr> \<and>
         (fst victim \<noteq> generate_cache_key ty fc ds \<longrightarrow>
            fst victim \<notin> set (keys (cache (ModelCache_set c ty fc ds m t1 t2 t3))) \<and>
            int (length (cache (ModelCache_set c ty fc ds m t1 t2 t3))) = max_cache_size c - 1))"
proof
  let ?k = "generate_cache_key ty fc ds"
  let ?new = "\<lparr>model = m, created_at = t1, expires_at = t2 + ttl_minutes c * 60000000,
              hits = 0, last_accessed = t3\<rparr>"
  let ?c' = "ModelCache_set c ty fc ds m t1 t2 t3"
  assume h: "distinct (keys (cache c)) \<and> ?k \<in> set (keys (cache c)) \<and>
             int (length (cache c)) = max_cache_size c"
  then have ne: "cache c \<noteq> []" by (cases "cache c") (simp_all add: keys_def)
  from h have full: "max_cache_size c \<le> int (length (cache c))" by simp
  from h have dist: "distinct (keys (cache c))" by simp
  from h have kmem: "?k \<in> set (keys (cache c))" by simp
  from h have cap: "int (length (cache c)) = max_cache_size c" by simp
  from evict_victim[OF ne] obtain victim where
    v: "victim \<in> set (cache c)"
       "\<forall>e \<in> set (cache c). \<not> tuple_less (usage (snd e)) (usage (snd victim))"
       "cache (evict_least_used c) = dict_del (cache c) (fst victim)"
    by blast
  have eq: "cache ?c' = dict_set (dict_del (cache c) (fst victim)) ?k ?new"
    using full v(3) by (simp add: ModelCache_set_def Let_def)
  have rest: "fst victim \<notin> set (keys (cache ?c')) \<and> int (length (cache ?c')) = max_cache_size c - 1"
    if diff: "fst victim \<noteq> ?k"
  proof -
    have ks: "set (keys (dict_del (cache c) (fst victim))) = set (keys (cache c)) - {fst victim}"
      using dist by (rule keys_dict_del)
    have kin: "?k \<in> set (keys (dict_del (cache c) (fst victim)))"
      unfolding ks using kmem diff by simp
    have "set (keys (cache ?c')) = insert ?k (set (keys (cache c)) - {fst victim})"
      unfolding eq keys_dict_set ks by (rule refl)
    then have 1: "fst victim \<notin> set (keys (cache ?c'))" using diff by simp
    have "fst victim \<in> set (keys (cache c))" using v(1) by (auto simp: keys_def)
    then have "Suc (length (dict_del (cache c) (fst victim))) = length (cache c)"
      by (rule length_dict_del)
    moreover have "length (cache ?c') = length (dict_del (cache c) (fst victim))"
      unfolding eq length_dict_set using kin by simp
    ultimately have 2: "int (length (cache ?c')) = max_cache_size c - 1" using cap by linarith
    from 1 2 show ?thesis by (rule conjI)
  qed
  from v(1,2) eq rest
  show "\<exists>victim \<in> set (cache c).
         (\<forall>e \<in> set (cache c). \<not> tuple_less (usage (snd e)) (usage (snd victim))) \<and>
         cache ?c' = dict_set (dict_del (cache c) (fst victim)) ?k ?new \<and>
         (fst victim \<noteq> ?k \<longrightarrow>
            fst victim \<notin> set (keys (cache ?c')) \<and> int (length (cache ?c')) = max_cache_size c - 1)"
    by (intro bexI[of _ victim] conjI impI) simp_all
qed

text \<open>
  C10 at work: on the full cache of capacity 3, \<open>set\<close> on the present key link\_4\_100
  evicts network\_5\_100 and leaves two entries.
\<close>

theorem set_existing_key_at_capacity_witness:
  "keys (cache full_cache) = [''network_5_100'', ''site_6_100'', ''link_4_100''] \<and>
   max_cache_size full_cache = 3 \<and>
   keys (cache (ModelCache_set full_cache ''link'' 4 100 () 5000 5000 5000)) =
     [''site_6_100'', ''link_4_100''] \<and>
   (\<exists>victim \<in> set (cache full_cache).
      (\<forall>e \<in> set (cache full_cache). \<not> tuple_less (usage (snd e)) (usage (snd victim))) \<and>
      cache (ModelCache_set full_cache ''link'' 4 100 () 5000 5000 5000) =
        dict_set (dict_del (cache full_cache) (fst victim)) (generate_cache_key ''link'' 4 100)
          \<lparr>model = (), created_at = 5000, expires_at = 5000 + ttl_minutes full_cache * 60000000,
           hits = 0, last_accessed = 5000\<rparr>)"
proof -
  have p: "distinct (keys (cache full_cache)) \<and>
           generate_cache_key ''link'' 4 100 \<in> set (keys (cache full_cache)) \<and>
           int (length (cache full_cache)) = max_cache_size full_cache"
    by (simp add: full_cache_eval cache_eval)
  have e: "keys (cache full_cache) = [''network_5_100'', ''site_6_100'', ''link_4_100''] \<and>
     max_cache_size full_cache = 3 \<and>
     keys (cache (ModelCache_set full_cache ''link'' 4 100 () 5000 5000 5000)) =
       [''site_6_100'', ''link_4_100'']"
    by (simp add: full_cache_eval cache_eval)
  from set_existing_key_at_capacity[of full_cache "''link''" 4 100 "()" 5000 5000 5000] p e
  show ?thesis by blast
qed

section \<open>Properties of the correlation engine\<close>

lemma detect_bidirectional_filter:
  "detect_bidirectional_degradation grades lid =
     map (bidirectional_pattern lid) (filter is_bidirectional grades)"
  by (induction grades) simp_all

lemma is_bidirectional_iff:
  "is_bidirectional g \<longleftrightarrow> or0 (ib_degradation g) \<ge> 0.2 \<and> or0 (ob_degradation g) \<ge> 0.2"
  by (simp add: is_bidirectional_def IB_DEGRADATION_THRESHOLD_def OB_DEGRADATION_THRESHOLD_def)

lemma bidirectional_pattern_fields:
  "pattern_type (bidirectional_pattern lid g) = ''antenna_misalignment''"
  "severity (bidirectional_pattern lid g) = max (or0 (ib_degradation g)) (or0 (ob_degradation g))"
  "confidence (bidirectional_pattern lid g) = 0.9"
  "affected_items (bidirectional_pattern lid g) = [lid]"
  "pattern_timestamp (bidirectional_pattern lid g) = timestamp g"
  by (simp_all add: bidirectional_pattern_def Let_def)

text \<open>
  C4. The patterns of \<open>_detect_bidirectional_degradation\<close> are, in order, one per grade
  record whose inbound and outbound degradation are both at least 0.2 (a null counts as
  0), and no other; each has type antenna\_misalignment, severity the larger of the two
  degradations and confidence 0.9. A link whose only record in the window has inbound
  0.25 and outbound 0.3 gets an analysis with exactly one such pattern, of severity 0.3.
\<close>

theorem bidirectional_pattern_per_record:
  "detect_bidirectional_degradation grades lid =
     map (bidirectional_pattern lid)
       (filter (\<lambda>g. or0 (ib_degradation g) \<ge> 0.2 \<and> or0 (ob_degradation g) \<ge> 0.2) grades)
   \<and> pattern_type (bidirectional_pattern lid g) = ''antenna_misalignment''
   \<and> severity (bidirectional_pattern lid g) = max (or0 (ib_degradation g)) (or0 (ob_degradation g))
   \<and> confidence (bidirectional_pattern lid g) = 0.9
   \<and> (ib_degradation g = Some 0.25 \<and> ob_degradation g = Some 0.3 \<and>
      cutoff_time now hours_lookback = Inr cutoff \<and>
      grades_since db lid cutoff = [g]
      \<longrightarrow> (\<exists>a p. analyze_link_bidirectional_degradation db lid hours_lookback uid now now' = Some a \<and>
                 patterns_found a = [p] \<and> pattern_type p = ''antenna_misalignment'' \<and>
                 severity p = 0.3 \<and> confidence p = 0.9 \<and> affected_items p = [lid]))"
proof (intro conjI impI)
  have "is_bidirectional = (\<lambda>g. or0 (ib_degradation g) \<ge> 0.2 \<and> or0 (ob_degradation g) \<ge> 0.2)"
    by (rule ext) (rule is_bidirectional_iff)
  then show "detect_bidirectional_degradation grades lid =
     map (bidirectional_pattern lid)
       (filter (\<lambda>g. or0 (ib_degradation g) \<ge> 0.2 \<and> or0 (ob_degradation g) \<ge> 0.2) grades)"
    using detect_bidirectional_filter[of grades lid] by simp
next
  assume h: "ib_degradation g = Some 0.25 \<and> ob_degradation g = Some 0.3 \<and>
      cutoff_time now hours_lookback = Inr cutoff \<and> grades_since db lid cutoff = [g]"
  then have bi: "is_bidirectional g" by (simp add: is_bidirectional_iff or0_def)
  let ?p = "bidirectional_pattern lid g"
  have pats: "detect_bidirectional_degradation [g] lid = [?p]" using bi by simp
  have sev: "severity ?p = 0.3" using h by (simp add: bidirectional_pattern_fields or0_def)
  let ?a = "\<lparr>analysis_id = [Lit ''LINK_'', FInt lid, Lit ''_'', Lit uid], scope = ''link'',
             scope_id = lid, analysis_timestamp = now', hours_analyzed = hours_lookback,
             patterns_found = [?p], correlation_score = calculate_bidirectional_score [g],
             recommendations = generate_bidirectional_recommendations [?p]
                                 (calculate_bidirectional_score [g])\<rparr>"
  have "analyze_link_bidirectional_degradation db lid hours_lookback uid now now' = Some ?a"
    using h pats by (simp add: analyze_link_bidirectional_degradation_def Let_def)
  moreover have "patterns_found ?a = [?p]" by simp
  ultimately show "\<exists>a p. analyze_link_bidirectional_degradation db lid hours_lookback uid now now' = Some a \<and>
                 patterns_found a = [p] \<and> pattern_type p = ''antenna_misalignment'' \<and>
                 severity p = 0.3 \<and> confidence p = 0.9 \<and> affected_items p = [lid]"
    using sev bidirectional_pattern_fields(1,3,4)[of lid g] by blast
qed (simp_all add: bidirectional_pattern_fields)

lemma scenario_cutoff: "cutoff_time 63900000060000000 24 = Inr 63899913660000000"
  by (simp add: cutoff_time_def MAX_DATETIME_def Let_def)

text \<open>
  C4 at work on the specification's scenario for link 42.
\<close>

theorem bidirectional_pattern_per_record_witness:
  "\<exists>a p. analyze_link_bidirectional_degradation scenario_db 42 24 ''0a1b2c3d''
            63900000060000000 63900000060000001 = Some a \<and>
         patterns_found a = [p] \<and> pattern_type p = ''antenna_misalignment'' \<and>
         severity p = 0.3 \<and> confidence p = 0.9 \<and> affected_items p = [42]"
proof -
  have "ib_degradation scenario_grade = Some 0.25 \<and> ob_degradation scenario_grade = Some 0.3 \<and>
      cutoff_time 63900000060000000 24 = Inr 63899913660000000 \<and>
      grades_since scenario_db 42 63899913660000000 = [scenario_grade]"
    by (simp add: scenario_cutoff) (simp add: scenario_grade_def scenario_db_def grades_since_def)
  with bidirectional_pattern_per_record[of _ 42 scenario_grade 63900000060000000 24
         63899913660000000 scenario_db "''0a1b2c3d''" 63900000060000001]
  show ?thesis by blast
qed

lemma spec_consistency_bounds: "0 \<le> spec_consistency xs \<and> spec_consistency xs \<le> 1"
  by (simp add: spec_consistency_def)

lemma consistency_eq:
  "(if xs \<noteq> [] then (case stdev xs of Inr s \<Rightarrow> max 0 (min 1.0 (1.0 - s / 10.0)) | Inl e \<Rightarrow> 0.5)
    else 0.5) = spec_consistency xs"
  by (cases xs) (simp_all add: stdev_def spec_consistency_def)

text \<open>
  C5. For a non-empty dict of degraded items, \<open>_calculate_correlation_score\<close> is
  0.4 * min(item count / 10, 1) + 0.6 * consistency, with the consistency of the
  specification (the clamp of 1 - stdev/10, and 0.5 below two grades), and lies in [0, 1].
\<close>

theorem correlation_score_formula:
  "degraded_items \<noteq> [] \<longrightarrow>
     calculate_correlation_score degraded_items hours_lookback =
       0.4 * min (real (length degraded_items) / 10) 1
       + 0.6 * spec_consistency (all_grades_of degraded_items)
     \<and> 0 \<le> calculate_correlation_score degraded_items hours_lookback
     \<and> calculate_correlation_score degraded_items hours_lookback \<le> 1"
proof
  assume ne: "degraded_items \<noteq> []"
  define i where "i = min (real (length degraded_items) / 10) 1"
  define cc where "cc = spec_consistency (all_grades_of degraded_items)"
  have i: "0 \<le> i" "i \<le> 1" by (simp_all add: i_def)
  have c: "0 \<le> cc" "cc \<le> 1" using spec_consistency_bounds by (simp_all add: cc_def)
  have le: "i * 0.4 + cc * 0.6 \<le> 1" using i c by linarith
  have ge: "0 \<le> i * 0.4 + cc * 0.6" using i c by linarith
  have "calculate_correlation_score degraded_items hours_lookback =
          min 1.0 (min (real (length degraded_items) / 10.0) 1.0 * 0.4
                   + spec_consistency (all_grades_of degraded_items) * 0.6)"
    unfolding calculate_correlation_score_def Let_def all_grades_of_def[symmetric] consistency_eq
    using ne by (simp only: if_False)
  then have "calculate_correlation_score degraded_items hours_lookback = min 1 (i * 0.4 + cc * 0.6)"
    by (simp add: i_def cc_def)
  then have eq: "calculate_correlation_score degraded_items hours_lookback = i * 0.4 + cc * 0.6"
    using le by simp
  have "calculate_correlation_score degraded_items hours_lookback = 0.4 * i + 0.6 * cc
     \<and> 0 \<le> calculate_correlation_score degraded_items hours_lookback
     \<and> calculate_correlation_score degraded_items hours_lookback \<le> 1"
    unfolding eq using le ge by (simp add: mult.commute)
  then show "calculate_correlation_score degraded_items hours_lookback =
       0.4 * min (real (length degraded_items) / 10) 1
       + 0.6 * spec_consistency (all_grades_of degraded_items)
     \<and> 0 \<le> calculate_correlation_score degraded_items hours_lookback
     \<and> calculate_correlation_score degraded_items hours_lookback \<le> 1"
    by (simp add: i_def cc_def)
qed

lemma sample_stdev: "stdev [2, 4, 6] = Inr 2"
  by (simp add: stdev_def average_def power2_eq_square)

text \<open>
  C5 at work: two items with the grades 2, 4 and 6 (standard deviation 2) score
  0.4 * 0.2 + 0.6 * 0.8 = 0.56.
\<close>

theorem correlation_score_formula_witness:
  "calculate_correlation_score
     [(1, [plain_grade 1 0 2, plain_grade 1 3600000000 4]), (2, [plain_grade 2 0 6])] 24 = 0.56"
proof -
  let ?d = "[(1, [plain_grade 1 0 2, plain_grade 1 3600000000 4]), (2, [plain_grade 2 0 6])]"
  have ne: "?d \<noteq> []" by simp
  have g: "all_grades_of ?d = [2, 4, 6]" by (simp add: all_grades_of_def plain_grade_def)
  have "spec_consistency [2, 4, 6] = 0.8"
    by (simp add: spec_consistency_def average_def power2_eq_square)
  with correlation_score_formula[of ?d 24] ne g show ?thesis by simp
qed

subsection \<open>Ranges of severity and confidence\<close>

lemma sum_list_bounds:
  "\<forall>x \<in> set xs. a \<le> x \<and> x \<le> b \<Longrightarrow>
     a * real (length xs) \<le> sum_list xs \<and> sum_list xs \<le> b * real (length xs)"
  by (induction xs) (auto simp: algebra_simps)

lemma average_bounds:
  assumes "xs \<noteq> []" and "\<forall>x \<in> set xs. a \<le> x \<and> x \<le> b"
  shows "a \<le> average xs \<and> average xs \<le> b"
proof -
  have n: "0 < real (length xs)" using assms(1) by simp
  from sum_list_bounds[OF assms(2)]
  have "a * real (length xs) \<le> sum_list xs" "sum_list xs \<le> b * real (length xs)" by simp_all
  then show ?thesis using n by (simp add: average_def pos_le_divide_eq pos_divide_le_eq)
qed

lemma mean_or0_unit:
  assumes "\<forall>x \<in> set xs. 0 \<le> x \<and> x \<le> 1"
  shows "0 \<le> mean_or0 xs \<and> mean_or0 xs \<le> 1"
proof (cases "xs = []")
  case True
  then show ?thesis by (simp add: mean_or0_def)
next
  case False
  then show ?thesis using average_bounds[OF False assms] by (simp add: mean_or0_def)
qed

lemma bidirectional_in_unit:
  assumes "\<forall>g \<in> set grades. well_scaled g"
    and "p \<in> set (detect_bidirectional_degradation grades lid)"
  shows "in_unit (severity p) \<and> in_unit (confidence p)"
proof -
  from assms(2) obtain g where g: "g \<in> set grades" "p = bidirectional_pattern lid g"
    by (auto simp: detect_bidirectional_filter)
  then have "well_scaled g" using assms(1) by blast
  then show ?thesis
    using g(2) by (auto simp: bidirectional_pattern_fields in_unit_def well_scaled_def max_def)
qed

lemma antenna_source:
  "p \<in> set (detect_antenna_alignment_patterns d sid now) \<Longrightarrow>
     \<exists>lid grades. (lid, grades) \<in> set d \<and> p = antenna_pattern sid lid grades now"
  by (induction d sid now rule: detect_antenna_alignment_patterns.induct)
     (auto split: if_splits)

lemma antenna_in_unit:
  assumes "\<forall>(k, gs) \<in> set d. \<forall>g \<in> set gs. well_scaled g"
    and "p \<in> set (detect_antenna_alignment_patterns d sid now)"
  shows "in_unit (severity p) \<and> in_unit (confidence p)"
proof -
  from antenna_source[OF assms(2)] obtain lid grades where
    s: "(lid, grades) \<in> set d" "p = antenna_pattern sid lid grades now" by blast
  then have ws: "\<forall>g \<in> set grades. well_scaled g" using assms(1) by blast
  have "\<forall>x \<in> set (map (\<lambda>g. or0 (ib_instability g)) grades). 0 \<le> x \<and> x \<le> 1"
    using ws by (auto simp: well_scaled_def)
  then have ib: "0 \<le> mean_or0 (map (\<lambda>g. or0 (ib_instability g)) grades) \<and>
                 mean_or0 (map (\<lambda>g. or0 (ib_instability g)) grades) \<le> 1"
    by (rule mean_or0_unit)
  have "\<forall>x \<in> set (map (\<lambda>g. or0 (ob_instability g)) grades). 0 \<le> x \<and> x \<le> 1"
    using ws by (auto simp: well_scaled_def)
  then have ob: "0 \<le> mean_or0 (map (\<lambda>g. or0 (ob_instability g)) grades) \<and>
                 mean_or0 (map (\<lambda>g. or0 (ob_instability g)) grades) \<le> 1"
    by (rule mean_or0_unit)
  show ?thesis using ib ob by (auto simp: s(2) antenna_pattern_def Let_def in_unit_def max_def)
qed

lemma satellite_in_unit:
  assumes "\<forall>(k, gs) \<in> set d. \<forall>g \<in> set gs. well_scaled g"
    and "p \<in> set (detect_satellite_patterns d name now)"
  shows "in_unit (severity p) \<and> in_unit (confidence p)"
proof -
  let ?all = "concat (map snd d)"
  have ws: "\<forall>g \<in> set ?all. well_scaled g" using assms(1) by auto
  have "\<forall>x \<in> set (map (\<lambda>g. or0 (congestion g)) ?all). 0 \<le> x \<and> x \<le> 1"
    using ws by (simp add: well_scaled_def)
  then have cg: "0 \<le> mean_or0 (map (\<lambda>g. or0 (congestion g)) ?all) \<and>
                 mean_or0 (map (\<lambda>g. or0 (congestion g)) ?all) \<le> 1"
    by (rule mean_or0_unit)
  have gr: "0 \<le> mean_or0 (map grade ?all) \<and> mean_or0 (map grade ?all) \<le> 10"
  proof (cases "map grade ?all = []")
    case True
    then show ?thesis by (simp add: mean_or0_def)
  next
    case False
    have "\<forall>x \<in> set (map grade ?all). 0 \<le> x \<and> x \<le> 10"
      using ws by (simp add: well_scaled_def)
    from average_bounds[OF False this] False show ?thesis by (simp add: mean_or0_def)
  qed
  from assms(2) have p: "severity p = max (1.0 - mean_or0 (map grade ?all) / 10.0)
                                       (mean_or0 (map (\<lambda>g. or0 (congestion g)) ?all))"
    "confidence p = 0.88"
    by (auto simp: detect_satellite_patterns_def Let_def split: if_splits)
  show ?thesis unfolding p in_unit_def using cg gr by auto
qed

lemma bucket_append_mem:
  "(h', es') \<in> set (bucket_append d h e) \<Longrightarrow> x \<in> set es' \<Longrightarrow>
     x = e \<or> (\<exists>es. (h', es) \<in> set d \<and> x \<in> set es)"
  by (induction d h e rule: bucket_append.induct) (auto split: if_splits)

lemma bucket_fold_mem:
  "(h', es') \<in> set (foldl (\<lambda>b g. bucket_append b (hour_key (timestamp g)) (lid, g)) b grades) \<Longrightarrow>
   x \<in> set es' \<Longrightarrow>
     (\<exists>g \<in> set grades. x = (lid, g)) \<or> (\<exists>es. (h', es) \<in> set b \<and> x \<in> set es)"
proof (induction grades arbitrary: b)
  case Nil
  then show ?case by auto
next
  case (Cons g grades)
  from Cons.IH[of "bucket_append b (hour_key (timestamp g)) (lid, g)"] Cons.prems
  have "(\<exists>g' \<in> set grades. x = (lid, g')) \<or>
        (\<exists>es. (h', es) \<in> set (bucket_append b (hour_key (timestamp g)) (lid, g)) \<and> x \<in> set es)"
    by simp
  then show ?case using bucket_append_mem[of h' _ b "hour_key (timestamp g)" "(lid, g)" x] by auto
qed

lemma hourly_fold_mem:
  "(h', es') \<in> set (foldl (\<lambda>buckets (lid, grades).
        foldl (\<lambda>b g. bucket_append b (hour_key (timestamp g)) (lid, g)) buckets grades) b lg) \<Longrightarrow>
   x \<in> set es' \<Longrightarrow>
     (\<exists>lid grades. (lid, grades) \<in> set lg \<and> snd x \<in> set grades \<and> fst x = lid) \<or>
     (\<exists>es. (h', es) \<in> set b \<and> x \<in> set es)"
proof (induction lg arbitrary: b)
  case Nil
  then show ?case by auto
next
  case (Cons a lg)
  obtain lid grades where a: "a = (lid, grades)" by (cases a)
  let ?b = "foldl (\<lambda>b g. bucket_append b (hour_key (timestamp g)) (lid, g)) b grades"
  from Cons.IH[of ?b] Cons.prems a
  consider "\<exists>lid grades. (lid, grades) \<in> set lg \<and> snd x \<in> set grades \<and> fst x = lid"
    | es where "(h', es) \<in> set ?b" "x \<in> set es"
    by auto
  then show ?case
  proof cases
    case 1
    then show ?thesis by auto
  next
    case 2
    from bucket_fold_mem[OF 2] show ?thesis using a by auto
  qed
qed

lemma hourly_buckets_mem:
  assumes "(h, es) \<in> set (hourly_buckets lg)" and "x \<in> set es"
  shows "\<exists>grades. (fst x, grades) \<in> set lg \<and> snd x \<in> set grades"
  using hourly_fold_mem[of h es "[]" lg x] assms by (auto simp: hourly_buckets_def)

lemma temporal_loop_source:
  "p \<in> set (temporal_loop nid buckets) \<Longrightarrow>
     \<exists>hour entries. (hour, entries) \<in> set buckets \<and> length entries \<ge> MIN_DEVICES_FOR_PATTERN \<and>
        temporal_pattern nid hour entries = Inr p"
proof (induction buckets)
  case Nil
  then show ?case by simp
next
  case (Cons a buckets)
  obtain hour entries where a: "a = (hour, entries)" by (cases a)
  show ?case
  proof (cases "length entries \<ge> MIN_DEVICES_FOR_PATTERN")
    case False
    with Cons a show ?thesis by auto
  next
    case True
    show ?thesis
    proof (cases "temporal_pattern nid hour entries")
      case (Inl e)
      with Cons.prems a True show ?thesis by simp
    next
      case (Inr q)
      with Cons.prems a True have "p = q \<or> p \<in> set (temporal_loop nid buckets)" by auto
      then show ?thesis
      proof
        assume "p = q"
        with Inr a True show ?thesis by auto
      next
        assume "p \<in> set (temporal_loop nid buckets)"
        from Cons.IH[OF this] show ?thesis by auto
      qed
    qed
  qed
qed

lemma temporal_pattern_fields:
  assumes "temporal_pattern nid hour entries = Inr p"
  shows "entries \<noteq> []"
    and "severity p = 1 - average (map (grade \<circ> snd) entries) / 10"
    and "confidence p = min 0.95 (real (length (remdups (map fst entries))) / 10 * 2)"
    and "affected_items p = remdups (map fst entries)"
    and "pattern_type p = ''network_equipment_failure''"
  using assms
  by (auto simp: temporal_pattern_def Let_def mean_def split: sum.splits if_splits)

lemma temporal_confidence: "0 \<le> min 0.95 (real n / 10 * 2) \<and> min 0.95 (real n / 10 * 2) \<le> (1::real)"
  by (simp add: min_def)

lemma temporal_in_unit:
  assumes "\<forall>(k, gs) \<in> set lg. \<forall>g \<in> set gs. well_scaled g"
    and "p \<in> set (detect_temporal_correlation lg nid ptype)"
  shows "in_unit (severity p) \<and> in_unit (confidence p)"
proof -
  from assms(2) have "p \<in> set (temporal_loop nid (hourly_buckets lg))"
    by (auto simp: detect_temporal_correlation_def split: if_splits)
  from temporal_loop_source[OF this] obtain hour entries where
    b: "(hour, entries) \<in> set (hourly_buckets lg)" "temporal_pattern nid hour entries = Inr p"
    by blast
  have "\<forall>x \<in> set entries. 0 \<le> grade (snd x) \<and> grade (snd x) \<le> 10"
  proof
    fix x assume "x \<in> set entries"
    from hourly_buckets_mem[OF b(1) this] obtain grades where
      "(fst x, grades) \<in> set lg" "snd x \<in> set grades" by blast
    then have "well_scaled (snd x)" using assms(1) by blast
    then show "0 \<le> grade (snd x) \<and> grade (snd x) \<le> 10" by (simp add: well_scaled_def)
  qed
  then have r: "\<forall>v \<in> set (map (grade \<circ> snd) entries). 0 \<le> v \<and> v \<le> 10" by simp
  have ne: "map (grade \<circ> snd) entries \<noteq> []" using temporal_pattern_fields(1)[OF b(2)] by simp
  from average_bounds[OF ne r]
  have "in_unit (severity p)"
    by (simp add: temporal_pattern_fields(2)[OF b(2)] in_unit_def)
  moreover have "in_unit (confidence p)"
    using temporal_confidence by (simp add: temporal_pattern_fields(3)[OF b(2)] in_unit_def)
  ultimately show ?thesis by simp
qed

lemma confidence_always:
  "p \<in> set (detect_bidirectional_degradation grades lid) \<Longrightarrow> in_unit (confidence p)"
  "p \<in> set (detect_temporal_correlation d nid ptype) \<Longrightarrow> in_unit (confidence p)"
  "p \<in> set (detect_antenna_alignment_patterns d sid now) \<Longrightarrow> in_unit (confidence p)"
  "p \<in> set (detect_satellite_patterns d name now) \<Longrightarrow> in_unit (confidence p)"
proof -
  show "p \<in> set (detect_bidirectional_degradation grades lid) \<Longrightarrow> in_unit (confidence p)"
    by (auto simp: detect_bidirectional_filter bidirectional_pattern_fields in_unit_def)
  show "p \<in> set (detect_antenna_alignment_patterns d sid now) \<Longrightarrow> in_unit (confidence p)"
    by (auto dest!: antenna_source simp: antenna_pattern_def Let_def in_unit_def)
  show "p \<in> set (detect_satellite_patterns d name now) \<Longrightarrow> in_unit (confidence p)"
    by (auto simp: detect_satellite_patterns_def Let_def in_unit_def split: if_splits)
  show "in_unit (confidence p)" if "p \<in> set (detect_temporal_correlation d nid ptype)"
  proof -
    from that have "p \<in> set (temporal_loop nid (hourly_buckets d))"
      by (auto simp: detect_temporal_correlation_def split: if_splits)
    from temporal_loop_source[OF this] obtain hour entries where
      "temporal_pattern nid hour entries = Inr p" by blast
    from temporal_pattern_fields(3)[OF this] show ?thesis
      using temporal_confidence by (simp add: in_unit_def)
  qed
qed

text \<open>
  Where the range 0..1 of severity and confidence does hold. When every grade record is
  on the documented scales (grade within 0..10; degradation, instability and congestion
  within 0..1), every pattern of the four detectors has severity in [0, 1]; the
  confidence of every pattern is in [0, 1] for all inputs.
\<close>

lemma pattern_scores_in_unit_interval:
  "((\<forall>g \<in> set grades. well_scaled g) \<longrightarrow>
      (\<forall>p \<in> set (detect_bidirectional_degradation grades lid). in_unit (severity p)))
   \<and> ((\<forall>(k, gs) \<in> set d. \<forall>g \<in> set gs. well_scaled g) \<longrightarrow>
      (\<forall>p \<in> set (detect_temporal_correlation d nid ptype)
            \<union> set (detect_antenna_alignment_patterns d sid now)
            \<union> set (detect_satellite_patterns d name now). in_unit (severity p)))
   \<and> (\<forall>p \<in> set (detect_bidirectional_degradation grades lid)
            \<union> set (detect_temporal_correlation d nid ptype)
            \<union> set (detect_antenna_alignment_patterns d sid now)
            \<union> set (detect_satellite_patterns d name now). in_unit (confidence p))"
proof (intro conjI impI ballI)
  fix p
  assume "\<forall>g \<in> set grades. well_scaled g" "p \<in> set (detect_bidirectional_degradation grades lid)"
  then show "in_unit (severity p)" using bidirectional_in_unit by blast
next
  fix p
  assume ws: "\<forall>(k, gs) \<in> set d. \<forall>g \<in> set gs. well_scaled g"
    and "p \<in> set (detect_temporal_correlation d nid ptype)
            \<union> set (detect_antenna_alignment_patterns d sid now)
            \<union> set (detect_satellite_patterns d name now)"
  then consider "p \<in> set (detect_temporal_correlation d nid ptype)"
    | "p \<in> set (detect_antenna_alignment_patterns d sid now)"
    | "p \<in> set (detect_satellite_patterns d name now)" by blast
  then show "in_unit (severity p)"
  proof cases
    case 1 with temporal_in_unit[OF ws] show ?thesis by blast
  next
    case 2 with antenna_in_unit[OF ws] show ?thesis by blast
  next
    case 3 with satellite_in_unit[OF ws] show ?thesis by blast
  qed
next
  fix p
  assume "p \<in> set (detect_bidirectional_degradation grades lid)
            \<union> set (detect_temporal_correlation d nid ptype)
            \<union> set (detect_antenna_alignment_patterns d sid now)
            \<union> set (detect_satellite_patterns d name now)"
  then show "in_unit (confidence p)" using confidence_always by blast
qed

lemmas engine_eval =
  detect_temporal_correlation_def hourly_buckets_def hour_key_def temporal_pattern_def
  mean_def average_def py_min_def MIN_DEVICES_FOR_PATTERN_def Let_def
  detect_satellite_patterns_def mean_or0_def is_misaligned_def antenna_pattern_def
  INSTABILITY_THRESHOLD_def or0_def keys_def

lemma three_links_temporal:
  "map severity (detect_temporal_correlation three_links 7 ''network_equipment'') = [0.42]"
  "map confidence (detect_temporal_correlation three_links 7 ''network_equipment'') = [0.6]"
  "map affected_items (detect_temporal_correlation three_links 7 ''network_equipment'') = [[1, 2, 3]]"
  "map pattern_type (detect_temporal_correlation three_links 7 ''network_equipment'') =
     [''network_equipment_failure'']"
  by (simp_all add: three_links_def full_grade_def engine_eval)

lemma three_links_antenna:
  "map severity (detect_antenna_alignment_patterns three_links 9 0) = [0.5, 0.5, 0.5]"
  by (simp add: three_links_def full_grade_def engine_eval)

lemma three_links_satellite:
  "map severity (detect_satellite_patterns three_links ''SAT1'' 0) = [0.42]"
  by (simp add: three_links_def full_grade_def engine_eval)

lemma three_links_scaled: "\<forall>(k, gs) \<in> set three_links. \<forall>g \<in> set gs. well_scaled g"
  by (simp add: three_links_def full_grade_def well_scaled_def or0_def)

text \<open>
  On in-scale records each of the four detectors yields a pattern, with severity and
  confidence in [0, 1].
\<close>

lemma pattern_scores_in_unit_interval_witness:
  "in_unit (severity (hd (detect_bidirectional_degradation [scenario_grade] 42)))
   \<and> detect_bidirectional_degradation [scenario_grade] 42 \<noteq> []
   \<and> in_unit (severity (hd (detect_temporal_correlation three_links 7 ''network_equipment'')))
   \<and> in_unit (confidence (hd (detect_temporal_correlation three_links 7 ''network_equipment'')))
   \<and> detect_temporal_correlation three_links 7 ''network_equipment'' \<noteq> []
   \<and> in_unit (severity (hd (detect_antenna_alignment_patterns three_links 9 0)))
   \<and> detect_antenna_alignment_patterns three_links 9 0 \<noteq> []
   \<and> in_unit (severity (hd (detect_satellite_patterns three_links ''SAT1'' 0)))
   \<and> detect_satellite_patterns three_links ''SAT1'' 0 \<noteq> []"
proof -
  have ws1: "\<forall>g \<in> set [scenario_grade]. well_scaled g"
    by (simp add: scenario_grade_def well_scaled_def or0_def)
  have n1: "detect_bidirectional_degradation [scenario_grade] 42 \<noteq> []"
    by (simp add: scenario_grade_def is_bidirectional_iff or0_def)
  have n2: "detect_temporal_correlation three_links 7 ''network_equipment'' \<noteq> []"
    using three_links_temporal(1) by fastforce
  have n3: "detect_antenna_alignment_patterns three_links 9 0 \<noteq> []"
    using three_links_antenna by fastforce
  have n4: "detect_satellite_patterns three_links ''SAT1'' 0 \<noteq> []"
    using three_links_satellite by fastforce
  note T = pattern_scores_in_unit_interval[of "[scenario_grade]" 42 three_links 7
             "''network_equipment''" 9 0 "''SAT1''"]
  from T ws1 three_links_scaled n1 n2 n3 n4 show ?thesis
    by (simp add: hd_in_set)
qed

text \<open>
  C7. Every pattern should have severity and confidence in [0, 1] for all input records,
  as the comments of the source say of severity (0-1). The code does not clamp the
  severity: on a record with inbound degradation 1.5 and outbound degradation 0.5,
  \<open>_detect_bidirectional_degradation\<close> returns one antenna\_misalignment pattern of
  severity max(1.5, 0.5) = 1.5, outside [0, 1] (its confidence is 0.9).
\<close>

theorem bidirectional_severity_unclamped:
  "map severity (detect_bidirectional_degradation [overdriven_grade] 42) = [1.5] \<and>
   map confidence (detect_bidirectional_degradation [overdriven_grade] 42) = [0.9] \<and>
   map pattern_type (detect_bidirectional_degradation [overdriven_grade] 42) =
     [''antenna_misalignment''] \<and>
   \<not> in_unit (severity (hd (detect_bidirectional_degradation [overdriven_grade] 42)))"
  by (simp add: overdriven_grade_def is_bidirectional_iff or0_def bidirectional_pattern_fields
      in_unit_def)

subsection \<open>Network-equipment patterns\<close>

lemma same_link_twice_buckets:
  "map (\<lambda>(h, es). (h, map fst es)) (hourly_buckets same_link_twice) =
     [(63900000000000000, [1, 1]), (63900018000000000, [2])]"
  by (simp add: same_link_twice_def plain_grade_def hourly_buckets_def hour_key_def)

text \<open>
  C2. On \<open>same_link_twice\<close> the hour of link 1 holds two records of that one link and
  no other link; \<open>_detect_temporal_correlation\<close> still emits a
  network\_equipment\_failure pattern for it, with the single affected link 1 and
  confidence min(0.95, 1/5) = 0.2: the bucket test counts records, not distinct links.
\<close>

theorem temporal_pattern_single_link:
  "map affected_items (detect_temporal_correlation same_link_twice 7 ''network_equipment'') = [[1]]
   \<and> map pattern_type (detect_temporal_correlation same_link_twice 7 ''network_equipment'') =
       [''network_equipment_failure'']
   \<and> map confidence (detect_temporal_correlation same_link_twice 7 ''network_equipment'') = [0.2]
   \<and> map severity (detect_temporal_correlation same_link_twice 7 ''network_equipment'') = [0.45]
   \<and> map pattern_timestamp (detect_temporal_correlation same_link_twice 7 ''network_equipment'') =
       [63900000000000000]"
  by (simp add: same_link_twice_def plain_grade_def engine_eval)

text \<open>
  What the code does for every input: a bucket gives a pattern when it holds at least
  two records; the pattern's severity is 1 - mean(grade)/10 and its confidence
  min(0.95, distinct links / 5).
\<close>

lemma temporal_loop_rule:
  "(\<forall>(h, es) \<in> set buckets. es \<noteq> []) \<Longrightarrow>
   map pattern_timestamp (temporal_loop nid buckets) =
     map fst (filter (\<lambda>(h, es). length es \<ge> 2) buckets)"
proof (induction buckets)
  case Nil
  then show ?case by simp
next
  case (Cons a buckets)
  obtain h es where a: "a = (h, es)" by (cases a)
  with Cons.prems have ne: "es \<noteq> []" by simp
  then obtain x xs where es: "es = x # xs" by (cases es) auto
  have "\<exists>p. temporal_pattern nid h es = Inr p \<and> pattern_timestamp p = h"
    by (simp add: temporal_pattern_def Let_def mean_def py_min_def es)
  then obtain p where p: "temporal_pattern nid h es = Inr p" "pattern_timestamp p = h" by blast
  from Cons.IH Cons.prems have IH: "map pattern_timestamp (temporal_loop nid buckets) =
     map fst (filter (\<lambda>(h, es). length es \<ge> 2) buckets)" by simp
  show ?case using a p IH by (simp add: MIN_DEVICES_FOR_PATTERN_def)
qed

lemma temporal_pattern_formulas:
  assumes "p \<in> set (detect_temporal_correlation lg nid ptype)"
  shows "\<exists>h es. (h, es) \<in> set (hourly_buckets lg) \<and> length es \<ge> 2 \<and>
           severity p = 1 - average (map (grade \<circ> snd) es) / 10 \<and>
           confidence p = min 0.95 (real (card (fst ` set es)) / 5) \<and>
           set (affected_items p) = fst ` set es"
proof -
  from assms have "p \<in> set (temporal_loop nid (hourly_buckets lg))"
    by (auto simp: detect_temporal_correlation_def split: if_splits)
  from temporal_loop_source[OF this] obtain h es where
    b: "(h, es) \<in> set (hourly_buckets lg)" "length es \<ge> MIN_DEVICES_FOR_PATTERN"
       "temporal_pattern nid h es = Inr p" by blast
  have "length (remdups (map fst es)) = card (fst ` set es)"
    by (simp add: length_remdups_card_conv)
  then show ?thesis
    using b temporal_pattern_fields(2,3,4)[OF b(3)]
    by (auto simp: MIN_DEVICES_FOR_PATTERN_def intro!: exI[of _ h] exI[of _ es])
qed

subsection \<open>Analyses of scopes with nothing degraded\<close>


















section \<open>Properties of the anomaly detector\<close>

lemma prepare_data_error: "prepare_data lib data cols = Inl e \<Longrightarrow> e = ValueError"
  by (auto simp: prepare_data_def Let_def split: if_splits)

lemma prepare_data_rows:
  "prepare_data lib data cols = Inr (X, df) \<Longrightarrow>
     df = pl_DataFrame lib data \<and> length X = df_height df"
  by (auto simp: prepare_data_def Let_def to_numpy_def split: if_splits)

lemma detect_small:
  "prepare_data lib data cols = Inr (X, df) \<Longrightarrow> length X < 10 \<Longrightarrow>
     detect_anomalies cols recommend lib data sensitivity clock = Inr []"
  by (simp add: detect_anomalies_def)

lemma detect_unprepared:
  "prepare_data lib data cols = Inl e \<Longrightarrow>
     detect_anomalies cols recommend lib data sensitivity clock = Inl ValueError"
  using prepare_data_error[of lib data cols e] by (simp add: detect_anomalies_def)

text \<open>
  C1 (as amended). When the numeric columns resolve and the matrix has fewer than 10
  rows, each of the three detection operations returns the empty list: it does not fail
  and reports no anomaly. When no declared column is numeric, each raises ValueError.
\<close>

theorem small_batch_returns_empty:
  "(prepare_data lib data network_columns = Inr (X, df) \<and> length X < 10
      \<longrightarrow> detect_network_anomalies lib data sensitivity clock = Inr [])
   \<and> (prepare_data lib data site_columns = Inr (X, df) \<and> length X < 10
      \<longrightarrow> detect_site_anomalies lib data sensitivity clock = Inr [])
   \<and> (prepare_data lib data link_columns = Inr (X, df) \<and> length X < 10
      \<longrightarrow> detect_link_anomalies lib data sensitivity clock = Inr [])
   \<and> (prepare_data lib data network_columns = Inl e
      \<longrightarrow> detect_network_anomalies lib data sensitivity clock = Inl ValueError)
   \<and> (prepare_data lib data site_columns = Inl e
      \<longrightarrow> detect_site_anomalies lib data sensitivity clock = Inl ValueError)
   \<and> (prepare_data lib data link_columns = Inl e
      \<longrightarrow> detect_link_anomalies lib data sensitivity clock = Inl ValueError)"
  unfolding detect_network_anomalies_def detect_site_anomalies_def detect_link_anomalies_def
  using detect_small detect_unprepared by blast

lemmas detector_eval =
  prepare_data_def test_library_def one_column_frame_def records_of_def get_column_def
  is_numeric_def to_numpy_def cell_value_def network_columns_def site_columns_def
  link_columns_def Let_def

lemma five_latency:
  "prepare_data (test_library ''latency'') (records_of ''latency'' 5) network_columns =
     Inr ([[1], [1], [1], [1], [1]], one_column_frame ''latency'' (records_of ''latency'' 5))"
  by (simp add: detector_eval eval_nat_numeral)

lemma five_other:
  "prepare_data (test_library ''weight'') (records_of ''weight'' 5) network_columns = Inl ValueError"
  by (simp add: detector_eval)

lemma five_cpu:
  "prepare_data (test_library ''cpu_usage'') (records_of ''cpu_usage'' 5) site_columns =
     Inr ([[1], [1], [1], [1], [1]], one_column_frame ''cpu_usage'' (records_of ''cpu_usage'' 5))"
  by (simp add: detector_eval eval_nat_numeral)

lemma five_errors:
  "prepare_data (test_library ''errors'') (records_of ''errors'' 5) link_columns =
     Inr ([[1], [1], [1], [1], [1]], one_column_frame ''errors'' (records_of ''errors'' 5))"
  by (simp add: detector_eval eval_nat_numeral)

text \<open>
  C1 at work: five records with one numeric column, for each operation, and five records
  without any declared column.
\<close>

theorem small_batch_returns_empty_witness:
  "detect_network_anomalies (test_library ''latency'') (records_of ''latency'' 5) 0.95 (\<lambda>i. 0) = Inr []
   \<and> detect_site_anomalies (test_library ''cpu_usage'') (records_of ''cpu_usage'' 5) 0.95 (\<lambda>i. 0) = Inr []
   \<and> detect_link_anomalies (test_library ''errors'') (records_of ''errors'' 5) 0.95 (\<lambda>i. 0) = Inr []
   \<and> detect_network_anomalies (test_library ''weight'') (records_of ''weight'' 5) 0.95 (\<lambda>i. 0)
       = Inl ValueError"
proof -
  have len: "length [[1], [1], [1], [1], [1::real]] < 10" by simp
  from small_batch_returns_empty[of "test_library ''latency''" "records_of ''latency'' 5"
         "[[1], [1], [1], [1], [1]]" "one_column_frame ''latency'' (records_of ''latency'' 5)"
         "0.95" "\<lambda>i. 0"] five_latency len
  have a: "detect_network_anomalies (test_library ''latency'') (records_of ''latency'' 5) 0.95 (\<lambda>i. 0) = Inr []"
    by blast
  from small_batch_returns_empty[of "test_library ''cpu_usage''" "records_of ''cpu_usage'' 5"
         "[[1], [1], [1], [1], [1]]" "one_column_frame ''cpu_usage'' (records_of ''cpu_usage'' 5)"
         "0.95" "\<lambda>i. 0"] five_cpu len
  have b: "detect_site_anomalies (test_library ''cpu_usage'') (records_of ''cpu_usage'' 5) 0.95 (\<lambda>i. 0) = Inr []"
    by blast
  from small_batch_returns_empty[of "test_library ''errors''" "records_of ''errors'' 5"
         "[[1], [1], [1], [1], [1]]" "one_column_frame ''errors'' (records_of ''errors'' 5)"
         "0.95" "\<lambda>i. 0"] five_errors len
  have c: "detect_link_anomalies (test_library ''errors'') (records_of ''errors'' 5) 0.95 (\<lambda>i. 0) = Inr []"
    by blast
  from small_batch_returns_empty[of "test_library ''weight''" "records_of ''weight'' 5" _ _
         "0.95" "\<lambda>i. 0" ValueError] five_other
  have d: "detect_network_anomalies (test_library ''weight'') (records_of ''weight'' 5) 0.95 (\<lambda>i. 0)
       = Inl ValueError"
    by blast
  from a b c d show ?thesis by blast
qed

text \<open>
  C1 as stated fails: five records with a numeric latency column do not make
  \<open>detect_network_anomalies\<close> fail; it returns the empty list.
\<close>

theorem small_batch_no_failure_counterexample:
  "length (records_of ''latency'' 5) < 10
   \<and> detect_network_anomalies (test_library ''latency'') (records_of ''latency'' 5) 0.95 (\<lambda>i. 0) = Inr []
   \<and> (\<forall>e. detect_network_anomalies (test_library ''latency'') (records_of ''latency'' 5) 0.95 (\<lambda>i. 0)
          \<noteq> Inl e)"
  by (simp add: detect_network_anomalies_def detect_anomalies_def five_latency)
     (simp add: records_of_def)

subsection \<open>Severity\<close>

lemma calculate_severity_cases:
  "np_percentile (map abs all_scores) 90 = Some p \<Longrightarrow>
     calculate_severity s all_scores =
       (if \<bar>s\<bar> > 1.5 * p then ''critical'' else if \<bar>s\<bar> > p then ''high''
        else if \<bar>s\<bar> > 0.5 * p then ''medium'' else ''low'')"
  by (simp add: calculate_severity_def Let_def mult.commute)

lemma severity_monotone:
  assumes "\<bar>s1\<bar> \<le> \<bar>s2\<bar>"
  shows "severity_rank (calculate_severity s1 all_scores)
           \<le> severity_rank (calculate_severity s2 all_scores)"
proof (cases "np_percentile (map abs all_scores) 90")
  case None
  then show ?thesis by (simp add: calculate_severity_def)
next
  case (Some p)
  show ?thesis
    unfolding calculate_severity_cases[OF Some] using assms
    by (auto simp: severity_rank_def)
qed

lemma collect_mem:
  "collect rs = Inr xs \<Longrightarrow> x \<in> set xs \<Longrightarrow> Inr x \<in> set rs"
proof (induction rs arbitrary: xs)
  case Nil
  then show ?case by simp
next
  case (Cons r rs)
  show ?case
  proof (cases r)
    case (Inl e)
    with Cons.prems show ?thesis by simp
  next
    case (Inr y)
    with Cons.prems obtain ys where ys: "collect rs = Inr ys" "xs = y # ys"
      by (auto split: sum.splits)
    with Cons.prems(2) have "x = y \<or> x \<in> set ys" by simp
    then show ?thesis using Cons.IH[OF ys(1)] Inr by auto
  qed
qed

lemma anomaly_of_fields:
  "anomaly_of recommend X data cols scores clock idx score = Inr a \<Longrightarrow>
     anomaly_score a = \<bar>score\<bar> \<and> anomaly_severity a = calculate_severity score scores"
  by (auto simp: anomaly_of_def Let_def split: sum.splits)

lemma detected_source:
  assumes "detect_anomalies cols recommend lib data sensitivity clock = Inr anomalies"
  shows "\<exists>scores. \<forall>a \<in> set anomalies. \<exists>score.
           anomaly_score a = \<bar>score\<bar> \<and> anomaly_severity a = calculate_severity score scores"
proof -
  from assms(1) obtain X df where p: "prepare_data lib data cols = Inr (X, df)"
    by (auto simp: detect_anomalies_def split: sum.splits)
  let ?scores = "score_samples lib (1 - sensitivity) (fit_transform lib X)"
  show ?thesis
  proof (cases "length X < 10")
    case True
    with assms p show ?thesis by (simp add: detect_anomalies_def)
  next
    case False
    with assms(1) p obtain predictions :: "int list" where
      c: "collect (map (\<lambda>(idx, pred, score).
                    anomaly_of recommend X data cols ?scores clock idx score)
                 (filter (\<lambda>(idx, pred, score). pred = - 1)
                    (zip [0..<length predictions] (zip predictions ?scores)))) = Inr anomalies"
      by (auto simp: detect_anomalies_def Let_def split: sum.splits)
    have "\<exists>score. anomaly_score a = \<bar>score\<bar> \<and>
                  anomaly_severity a = calculate_severity score ?scores"
      if "a \<in> set anomalies" for a
    proof -
      from collect_mem[OF c that] obtain idx score where
        "anomaly_of recommend X data cols ?scores clock idx score = Inr a"
        by auto
      from anomaly_of_fields[OF this] show ?thesis by auto
    qed
    then show ?thesis by blast
  qed
qed

text \<open>
  C6 (as amended). \<open>_calculate_severity\<close> classifies the absolute value of the score it
  is given (the value the anomaly record reports as anomaly\_score), and its label is
  monotonic in that absolute value: within one batch a point with a higher absolute score
  never gets a lower label in the order low < medium < high < critical. The labels are
  critical above 1.5 * p90, high above p90, medium above 0.5 * p90, else low, with p90 the
  90th percentile of the batch's absolute scores. So of any two anomalies that one call
  of a detection operation reports, the one with the strictly higher anomaly\_score has no
  lower severity.
\<close>

theorem severity_monotone_in_score:
  "(\<bar>s1\<bar> \<le> \<bar>s2\<bar> \<longrightarrow>
      severity_rank (calculate_severity s1 all_scores)
        \<le> severity_rank (calculate_severity s2 all_scores))
   \<and> (np_percentile (map abs all_scores) 90 = Some p \<longrightarrow>
      calculate_severity s all_scores =
        (if \<bar>s\<bar> > 1.5 * p then ''critical'' else if \<bar>s\<bar> > p then ''high''
         else if \<bar>s\<bar> > 0.5 * p then ''medium'' else ''low''))
   \<and> ((f = detect_network_anomalies \<or> f = detect_site_anomalies \<or> f = detect_link_anomalies) \<and>
      f lib data sensitivity clock = Inr anomalies \<and> a \<in> set anomalies \<and> b \<in> set anomalies \<and>
      anomaly_score a < anomaly_score b
      \<longrightarrow> severity_rank (anomaly_severity a) \<le> severity_rank (anomaly_severity b))"
proof (intro conjI impI)
  assume "\<bar>s1\<bar> \<le> \<bar>s2\<bar>"
  then show "severity_rank (calculate_severity s1 all_scores)
        \<le> severity_rank (calculate_severity s2 all_scores)"
    by (rule severity_monotone)
next
  assume "np_percentile (map abs all_scores) 90 = Some p"
  then show "calculate_severity s all_scores =
        (if \<bar>s\<bar> > 1.5 * p then ''critical'' else if \<bar>s\<bar> > p then ''high''
         else if \<bar>s\<bar> > 0.5 * p then ''medium'' else ''low'')"
    by (rule calculate_severity_cases)
next
  assume h: "(f = detect_network_anomalies \<or> f = detect_site_anomalies \<or> f = detect_link_anomalies) \<and>
      f lib data sensitivity clock = Inr anomalies \<and> a \<in> set anomalies \<and> b \<in> set anomalies \<and>
      anomaly_score a < anomaly_score b"
  then obtain cols recommend where
    "detect_anomalies cols recommend lib data sensitivity clock = Inr anomalies"
    unfolding detect_network_anomalies_def detect_site_anomalies_def detect_link_anomalies_def
    by blast
  from detected_source[OF this] obtain scores where
    s: "\<forall>x \<in> set anomalies. \<exists>score.
           anomaly_score x = \<bar>score\<bar> \<and> anomaly_severity x = calculate_severity score scores"
    by blast
  from s h obtain sa where sa: "anomaly_score a = \<bar>sa\<bar>"
    "anomaly_severity a = calculate_severity sa scores" by blast
  from s h obtain sb where sb: "anomaly_score b = \<bar>sb\<bar>"
    "anomaly_severity b = calculate_severity sb scores" by blast
  have "\<bar>sa\<bar> \<le> \<bar>sb\<bar>" using h sa(1) sb(1) by simp
  then show "severity_rank (anomaly_severity a) \<le> severity_rank (anomaly_severity b)"
    unfolding sa(2) sb(2) by (rule severity_monotone)
qed

lemma eleven_prepared:
  "prepare_data (test_library ''latency'') (records_of ''latency'' 11) network_columns =
     Inr (replicate 11 [1], one_column_frame ''latency'' (records_of ''latency'' 11))"
  by (simp add: detector_eval eval_nat_numeral)

lemma eleven_p90:
  "np_percentile (map abs ([- 0.7, - 0.4] @ replicate 9 (- 0.5))) 90 = Some 0.5"
  by (simp add: np_percentile_def Let_def eval_nat_numeral)

lemma eleven_affected:
  "identify_affected_metrics [1] (replicate 11 [1]) network_columns = Inr [''bandwidth_usage'']"
  by (simp add: identify_affected_metrics_def Let_def eval_nat_numeral np_std_def average_def
      network_columns_def)

lemma eleven_run:
  "detect_network_anomalies (test_library ''latency'') (records_of ''latency'' 11) 0.95 (\<lambda>i. 0) =
     Inr [\<lparr>anomaly_index = 0, anomaly_detected = True, anomaly_score = 0.7,
           affected_metrics = [''bandwidth_usage''], anomaly_severity = ''high'',
           anomaly_timestamp = PyDatetime 0,
           anomaly_recommendations =
             [''Monitor bandwidth consumption and consider upgrading capacity'',
              ''Immediate investigation recommended - potential service impact'']\<rparr>,
          \<lparr>anomaly_index = 1, anomaly_detected = True, anomaly_score = 0.4,
           affected_metrics = [''bandwidth_usage''], anomaly_severity = ''medium'',
           anomaly_timestamp = PyDatetime 0,
           anomaly_recommendations =
             [''Monitor bandwidth consumption and consider upgrading capacity'']\<rparr>]"
proof -
  define sc :: "real list" where "sc = [- 0.7, - 0.4] @ replicate 9 (- 0.5)"
  define X :: "real list list" where "X = replicate 11 [1]"
  define data where "data = records_of ''latency'' 11"
  have scores: "score_samples (test_library ''latency'') c X = sc" for c
    by (simp add: test_library_def sc_def X_def)
  have preds: "fit_predict (test_library ''latency'') c X = Inr ([- 1, - 1] @ replicate 9 1)" for c
    by (simp add: test_library_def X_def)
  have ft: "fit_transform (test_library ''latency'') M = M" for M
    by (simp add: test_library_def)
  have p: "np_percentile (map abs sc) 90 = Some 0.5"
    unfolding sc_def by (rule eleven_p90)
  have sev: "calculate_severity (- 0.7) sc = ''high''" "calculate_severity (- 0.4) sc = ''medium''"
    using calculate_severity_cases[OF p, of "- 0.7"] calculate_severity_cases[OF p, of "- 0.4"]
    by simp_all
  have idx: "py_index X 0 = Inr [1]" "py_index X 1 = Inr [1]"
    "py_index data 0 = Inr [(''latency'', PyFloat 1.0)]"
    "py_index data 1 = Inr [(''latency'', PyFloat 1.0)]"
    by (simp_all add: py_index_def records_of_def X_def data_def)
  have aff: "identify_affected_metrics [1] X network_columns = Inr [''bandwidth_usage'']"
    unfolding X_def by (rule eleven_affected)
  have a0: "anomaly_of generate_network_recommendations_ad X data network_columns sc
              (\<lambda>i. 0) 0 (- 0.7) =
            Inr \<lparr>anomaly_index = 0, anomaly_detected = True, anomaly_score = 0.7,
           affected_metrics = [''bandwidth_usage''], anomaly_severity = ''high'',
           anomaly_timestamp = PyDatetime 0,
           anomaly_recommendations =
             [''Monitor bandwidth consumption and consider upgrading capacity'',
              ''Immediate investigation recommended - potential service impact'']\<rparr>"
    by (simp add: anomaly_of_def idx[simplified] aff sev[simplified] generate_network_recommendations_ad_def)
  have a1: "anomaly_of generate_network_recommendations_ad X data network_columns sc
              (\<lambda>i. 0) 1 (- 0.4) =
            Inr \<lparr>anomaly_index = 1, anomaly_detected = True, anomaly_score = 0.4,
           affected_metrics = [''bandwidth_usage''], anomaly_severity = ''medium'',
           anomaly_timestamp = PyDatetime 0,
           anomaly_recommendations =
             [''Monitor bandwidth consumption and consider upgrading capacity'']\<rparr>"
    by (simp add: anomaly_of_def idx[simplified] aff sev[simplified] generate_network_recommendations_ad_def)
  have flagged: "filter (\<lambda>(idx, pred, score). pred = - 1)
          (zip [0..<length ([- 1, - 1] @ replicate 9 (1::int))]
             (zip ([- 1, - 1] @ replicate 9 (1::int)) sc)) =
        [(0, - 1, - 0.7), (1, - 1, - 0.4)]"
    by (simp add: sc_def eval_nat_numeral upt_rec)
  have prep: "prepare_data (test_library ''latency'') data network_columns =
     Inr (X, one_column_frame ''latency'' data)"
    unfolding X_def data_def by (rule eleven_prepared)
  have len: "\<not> length X < 10" by (simp add: X_def)
  have "detect_anomalies network_columns generate_network_recommendations_ad
          (test_library ''latency'') data 0.95 (\<lambda>i. 0) =
        collect [anomaly_of generate_network_recommendations_ad X data network_columns sc
                   (\<lambda>i. 0) 0 (- 0.7),
                 anomaly_of generate_network_recommendations_ad X data network_columns sc
                   (\<lambda>i. 0) 1 (- 0.4)]"
    unfolding detect_anomalies_def prep
    by (simp only: prod.case sum.case len if_False Let_def ft preds scores flagged list.map)
  then show ?thesis
    unfolding detect_network_anomalies_def data_def[symmetric] a0 a1 by simp
qed

text \<open>
  C6 at work: eleven records of which the forest flags two, with the scores -0.7 and -0.4.
\<close>

theorem severity_monotone_in_score_witness:
  "severity_rank (calculate_severity (- 0.4) ([- 0.7, - 0.4] @ replicate 9 (- 0.5)))
     \<le> severity_rank (calculate_severity (- 0.7) ([- 0.7, - 0.4] @ replicate 9 (- 0.5)))
   \<and> calculate_severity (- 0.7) ([- 0.7, - 0.4] @ replicate 9 (- 0.5)) = ''high''
   \<and> (\<exists>a b. detect_network_anomalies (test_library ''latency'') (records_of ''latency'' 11)
                 0.95 (\<lambda>i. 0) = Inr [a, b] \<and>
              anomaly_score b < anomaly_score a \<and>
              anomaly_severity a = ''high'' \<and> anomaly_severity b = ''medium'' \<and>
              severity_rank (anomaly_severity b) \<le> severity_rank (anomaly_severity a))"
proof -
  let ?S = "[- 0.7, - 0.4] @ replicate 9 (- 0.5 :: real)"
  let ?a = "\<lparr>anomaly_index = 0, anomaly_detected = True, anomaly_score = 0.7,
           affected_metrics = [''bandwidth_usage''], anomaly_severity = ''high'',
           anomaly_timestamp = PyDatetime 0,
           anomaly_recommendations =
             [''Monitor bandwidth consumption and consider upgrading capacity'',
              ''Immediate investigation recommended - potential service impact'']\<rparr>"
  let ?b = "\<lparr>anomaly_index = 1, anomaly_detected = True, anomaly_score = 0.4,
           affected_metrics = [''bandwidth_usage''], anomaly_severity = ''medium'',
           anomaly_timestamp = PyDatetime 0,
           anomaly_recommendations =
             [''Monitor bandwidth consumption and consider upgrading capacity'']\<rparr>"
  note T = severity_monotone_in_score[where ?s1.0 = "- 0.4" and ?s2.0 = "- 0.7"
      and all_scores = ?S and p = "0.5" and s = "- 0.7" and f = detect_network_anomalies
      and lib = "test_library ''latency''" and data = "records_of ''latency'' 11"
      and sensitivity = "0.95" and clock = "\<lambda>i. 0" and anomalies = "[?a, ?b]"
      and a = ?b and b = ?a]
  have h1: "\<bar>- 0.4 :: real\<bar> \<le> \<bar>- 0.7\<bar>" by simp
  have h3: "(detect_network_anomalies = detect_network_anomalies \<or>
             detect_network_anomalies = detect_site_anomalies \<or>
             detect_network_anomalies = detect_link_anomalies) \<and>
      detect_network_anomalies (test_library ''latency'') (records_of ''latency'' 11) 0.95 (\<lambda>i. 0)
        = Inr [?a, ?b] \<and> ?b \<in> set [?a, ?b] \<and> ?a \<in> set [?a, ?b] \<and>
      anomaly_score ?b < anomaly_score ?a"
    using eleven_run by simp
  from T h1 have c1: "severity_rank (calculate_severity (- 0.4) ?S)
     \<le> severity_rank (calculate_severity (- 0.7) ?S)" by blast
  from T eleven_p90 have c2: "calculate_severity (- 0.7) ?S = ''high''" by simp
  from T h3 have c3: "severity_rank (anomaly_severity ?b) \<le> severity_rank (anomaly_severity ?a)"
    by blast
  have "detect_network_anomalies (test_library ''latency'') (records_of ''latency'' 11)
                 0.95 (\<lambda>i. 0) = Inr [?a, ?b] \<and>
              anomaly_score ?b < anomaly_score ?a \<and>
              anomaly_severity ?a = ''high'' \<and> anomaly_severity ?b = ''medium'' \<and>
              severity_rank (anomaly_severity ?b) \<le> severity_rank (anomaly_severity ?a)"
    using h3 c3 by simp
  then have c4: "\<exists>a b. detect_network_anomalies (test_library ''latency'') (records_of ''latency'' 11)
                 0.95 (\<lambda>i. 0) = Inr [a, b] \<and>
              anomaly_score b < anomaly_score a \<and>
              anomaly_severity a = ''high'' \<and> anomaly_severity b = ''medium'' \<and>
              severity_rank (anomaly_severity b) \<le> severity_rank (anomaly_severity a)"
    by blast
  from c1 c2 c4 show ?thesis by blast
qed

text \<open>
  C6 as stated fails on the score as \<open>_calculate_severity\<close> receives it: the scores of
  \<open>score_samples\<close> are negative and the absolute value is taken first, so of the raw
  scores -0.7 < -0.4 the strictly higher one, -0.4, gets the strictly lower label.
\<close>

theorem severity_signed_counterexample:
  "(- 0.7 :: real) < - 0.4 \<and>
   calculate_severity (- 0.7) ([- 0.7, - 0.4] @ replicate 9 (- 0.5)) = ''high'' \<and>
   calculate_severity (- 0.4) ([- 0.7, - 0.4] @ replicate 9 (- 0.5)) = ''medium'' \<and>
   severity_rank (calculate_severity (- 0.4) ([- 0.7, - 0.4] @ replicate 9 (- 0.5)))
     < severity_rank (calculate_severity (- 0.7) ([- 0.7, - 0.4] @ replicate 9 (- 0.5)))"
  using calculate_severity_cases[OF eleven_p90, of "- 0.7"]
        calculate_severity_cases[OF eleven_p90, of "- 0.4"]
  by (simp add: severity_rank_def)

end
